theory Spec2Isabelle
  imports Main "HOL-Library.Sublist"
begin

section \<open>The subscription tier hook: data model\<close>

text \<open>
  The development embeds \<^verbatim>\<open>src/hooks/useSubscriptionTier.tsx\<close>. The hook keeps three
  pieces of React state (\<^verbatim>\<open>tier\<close>, \<^verbatim>\<open>loading\<close>, \<^verbatim>\<open>diagnostics\<close>) and, in an effect
  that depends on the user, runs the asynchronous routine
  \<^verbatim>\<open>resolveSubscriptionTier\<close>. The Supabase client is an external collaborator: it is
  a parameter of the model (the record \<open>Backend\<close> of the answers it gives), never a
  definition of this theory. The calls to \<^verbatim>\<open>console.log\<close> and \<^verbatim>\<open>console.error\<close> change
  neither the state nor the control flow and are left out.
\<close>

subsection \<open>JavaScript values\<close>

text \<open>
  A JSON value other than \<^verbatim>\<open>null\<close> (\<^verbatim>\<open>null\<close> and \<^verbatim>\<open>undefined\<close> are \<open>None\<close> of an
  option type). \<open>JObject\<close> stands for every object and array: all of them are truthy.
\<close>

datatype json = JBool bool | JNumber int | JString string | JObject

fun truthy :: "json \<Rightarrow> bool" where
  "truthy (JBool b) = b"
| "truthy (JNumber n) = (n \<noteq> 0)"
| "truthy (JString s) = (s \<noteq> [])"
| "truthy JObject = True"

text \<open>\<^verbatim>\<open>x || 'free'\<close> on a value that is a string, \<^verbatim>\<open>null\<close> or \<^verbatim>\<open>undefined\<close>.\<close>

definition or_free :: "string option \<Rightarrow> string" where
  "or_free v = (case v of None \<Rightarrow> ''free'' | Some s \<Rightarrow> if s = [] then ''free'' else s)"

text \<open>
  \<^verbatim>\<open>encodeURIComponent\<close> on a string held as its UTF-8 bytes: the unreserved
  characters stay, every other byte becomes \<^verbatim>\<open>%XX\<close> in upper-case hexadecimal. The
  argument \<^verbatim>\<open>undefined\<close> is converted to the string \<^verbatim>\<open>undefined\<close> first.
\<close>

definition uri_unreserved :: "char \<Rightarrow> bool" where
  "uri_unreserved c \<longleftrightarrow>
     c \<in> set (''ABCDEFGHIJKLMNOPQRSTUVWXYZabcdefghijklmnopqrstuvwxyz0123456789-_.!~*()''
              @ [CHR 0x27])"

definition hex_digit :: "nat \<Rightarrow> char" where
  "hex_digit n = ''0123456789ABCDEF'' ! (n mod 16)"

definition percent_encode :: "char \<Rightarrow> string" where
  "percent_encode c =
     (if uri_unreserved c then [c]
      else [CHR ''%'', hex_digit (of_char c div 16), hex_digit (of_char c mod 16)])"

definition encodeURIComponent :: "string option \<Rightarrow> string" where
  "encodeURIComponent v =
     (case v of None \<Rightarrow> ''undefined'' | Some s \<Rightarrow> concat (map percent_encode s))"

subsection \<open>The identity, the backend's answers\<close>

text \<open>\<^verbatim>\<open>User\<close> of supabase-js: \<^verbatim>\<open>id: string\<close>, \<^verbatim>\<open>email?: string\<close>.\<close>

record User =
  user_id :: string
  user_email :: "string option"

record PostgrestError =
  message :: string
  details :: string
  hint :: string
  code :: string

text \<open>
  The \<^verbatim>\<open>{ data, error }\<close> object a query resolves to. The \<^verbatim>\<open>count\<close> of the
  subscription answer is only logged, so it is left out.
\<close>

record 'a PostgrestResponse =
  data :: "'a option"
  error :: "PostgrestError option"

text \<open>A row of \<^verbatim>\<open>.select('id')\<close> on profiles, and of \<^verbatim>\<open>.select('tier')\<close> on subscriptions.\<close>

record Profile =
  profile_id :: json

record TierRow =
  row_tier :: "string option"

text \<open>
  The subscription query as the hook builds it (lines 95-100): the filter
  \<^verbatim>\<open>.eq('login_id', ...)\<close>, the direction of \<^verbatim>\<open>.order('created_at', ...)\<close> and the
  \<^verbatim>\<open>.limit(...)\<close>. The selected column \<^verbatim>\<open>tier\<close> and the count option are the same in every
  query.
\<close>

record SubscriptionsQuery =
  eq_login_id :: string
  order_ascending :: bool
  limit_rows :: nat

text \<open>
  What a \<^verbatim>\<open>throw\<close> carries: an \<^verbatim>\<open>Error\<close> instance with its message, a Postgrest error
  object (line 116 throws the one the subscription query returned), or anything else.
\<close>

datatype thrown = JsError string | PgError PostgrestError | NonError

text \<open>An awaited promise either fulfils with a value or rejects, which throws.\<close>

datatype 'a awaited = Fulfilled 'a | Rejected thrown

text \<open>
  The Supabase client, one field for each call the hook makes, in the order of the
  source (lines 31-35, 39-42, 53-55, 65-72, 95-100). Whether a Postgrest error object is
  an instance of \<^verbatim>\<open>Error\<close> depends on the version of the client library, so it is a
  field too.
\<close>

record Backend =
  profiles_eq_single :: "string option \<Rightarrow> Profile PostgrestResponse awaited"
  profiles_ilike :: "string option \<Rightarrow> Profile list PostgrestResponse awaited"
  rpc_get_auth_user_by_email :: "string \<Rightarrow> json PostgrestResponse awaited"
  profiles_insert_single :: "string option \<Rightarrow> string \<Rightarrow> Profile PostgrestResponse awaited"
  subscriptions_select :: "SubscriptionsQuery \<Rightarrow> TierRow list PostgrestResponse awaited"
  postgrest_error_instanceof_Error :: bool

subsection \<open>The hook's state and the effects of a run\<close>

record DiagnosticData =
  profileLookupStages :: "string list"
  finalTier :: "string option"
  subscriptionError :: "PostgrestError option"
  profileError :: "string option"

record HookState =
  tier :: string
  loading :: bool
  diagnostics :: DiagnosticData

datatype call =
    SelectProfileExact "string option"
  | SelectProfileIlike "string option"
  | RpcGetAuthUserByEmail string
  | InsertProfile "string option" string
  | SelectSubscriptions SubscriptionsQuery

text \<open>
  Everything a run does, in order: the requests sent to the backend, the calls of the
  three state setters, and each new value of the local object \<^verbatim>\<open>diagnosticData\<close>.
\<close>

datatype event =
    BackendCall call
  | SetLoading bool
  | SetTier string
  | SetDiagnostics DiagnosticData
  | DiagnosticDataIs DiagnosticData

text \<open>
  The configuration of a run: the locals \<^verbatim>\<open>exactMatchProfile\<close> and \<^verbatim>\<open>diagnosticData\<close>,
  the React state, and the events so far.
\<close>

record exec =
  exactMatchProfile :: "Profile option"
  diagnosticData :: DiagnosticData
  hook :: HookState
  trace :: "event list"

text \<open>A block of statements ends normally or throws; both leave a configuration.\<close>

datatype completion = Normal exec | Throw thrown exec

definition andThen :: "completion \<Rightarrow> (exec \<Rightarrow> completion) \<Rightarrow> completion" where
  "andThen c f = (case c of Normal e \<Rightarrow> f e | Throw t e \<Rightarrow> Throw t e)"

definition emit :: "event \<Rightarrow> exec \<Rightarrow> exec" where
  "emit ev e = e\<lparr>trace := trace e @ [ev]\<rparr>"

definition setLoading :: "bool \<Rightarrow> exec \<Rightarrow> exec" where
  "setLoading v e = emit (SetLoading v) (e\<lparr>hook := (hook e)\<lparr>loading := v\<rparr>\<rparr>)"

definition setTier :: "string \<Rightarrow> exec \<Rightarrow> exec" where
  "setTier v e = emit (SetTier v) (e\<lparr>hook := (hook e)\<lparr>tier := v\<rparr>\<rparr>)"

definition setDiagnostics :: "DiagnosticData \<Rightarrow> exec \<Rightarrow> exec" where
  "setDiagnostics v e = emit (SetDiagnostics v) (e\<lparr>hook := (hook e)\<lparr>diagnostics := v\<rparr>\<rparr>)"

definition assign_diagnosticData :: "DiagnosticData \<Rightarrow> exec \<Rightarrow> exec" where
  "assign_diagnosticData d e = emit (DiagnosticDataIs d) (e\<lparr>diagnosticData := d\<rparr>)"

text \<open>\<^verbatim>\<open>diagnosticData.profileLookupStages.push(label)\<close>\<close>

definition push_stage :: "string \<Rightarrow> exec \<Rightarrow> exec" where
  "push_stage label e =
     assign_diagnosticData
       ((diagnosticData e)\<lparr>profileLookupStages :=
           profileLookupStages (diagnosticData e) @ [label]\<rparr>) e"

definition request :: "call \<Rightarrow> exec \<Rightarrow> exec" where
  "request c e = emit (BackendCall c) e"

subsection \<open>The stage labels\<close>

definition stage1_label :: string where
  "stage1_label = ''Stage 1: Exact email match''"

definition stage2_label :: string where
  "stage2_label = ''Stage 2: Case-insensitive match''"

definition stage3_label :: string where
  "stage3_label = ''Stage 3: RPC lookup''"

definition stage4_label :: string where
  "stage4_label = ''Stage 4: Emergency profile creation''"

text \<open>The two outcome labels start with U+2705 and U+274C, written as UTF-8 bytes.\<close>

definition created_label :: string where
  "created_label = [CHR 0xE2, CHR 0x9C, CHR 0x85] @ '' Emergency profile created successfully''"

definition fatal_label :: string where
  "fatal_label = [CHR 0xE2, CHR 0x9D, CHR 0x8C] @ '' FATAL: Profile creation failed''"

section \<open>The resolution routine\<close>

text \<open>Lines 30-35: stage 1, the exact match with \<^verbatim>\<open>.single()\<close>; only \<^verbatim>\<open>data\<close> is read.\<close>

definition lookup_exact :: "Backend \<Rightarrow> User \<Rightarrow> exec \<Rightarrow> completion" where
  "lookup_exact b u e0 =
     (let e1 = push_stage stage1_label e0;
          e2 = request (SelectProfileExact (user_email u)) e1
      in case profiles_eq_single b (user_email u) of
           Rejected t \<Rightarrow> Throw t e2
         | Fulfilled r \<Rightarrow> Normal (e2\<lparr>exactMatchProfile := data r\<rparr>))"

text \<open>
  Lines 37-47: stage 2. \<^verbatim>\<open>ciMatchProfiles?.length === 1\<close> holds for an array of exactly
  one row, and for nothing else (\<^verbatim>\<open>null\<close> included).
\<close>

definition lookup_ci :: "Backend \<Rightarrow> User \<Rightarrow> exec \<Rightarrow> completion" where
  "lookup_ci b u e0 =
     (if exactMatchProfile e0 = None then
        let e1 = push_stage stage2_label e0;
            e2 = request (SelectProfileIlike (user_email u)) e1
        in case profiles_ilike b (user_email u) of
             Rejected t \<Rightarrow> Throw t e2
           | Fulfilled r \<Rightarrow>
               (case data r of
                  Some ciMatchProfiles \<Rightarrow>
                    if length ciMatchProfiles = 1
                    then Normal (e2\<lparr>exactMatchProfile := Some (hd ciMatchProfiles)\<rparr>)
                    else Normal e2
                | None \<Rightarrow> Normal e2)
      else Normal e0)"

text \<open>Lines 49-60: stage 3, the remote procedure on the URL-encoded email.\<close>

definition lookup_rpc :: "Backend \<Rightarrow> User \<Rightarrow> exec \<Rightarrow> completion" where
  "lookup_rpc b u e0 =
     (if exactMatchProfile e0 = None then
        let e1 = push_stage stage3_label e0;
            encodedEmail = encodeURIComponent (user_email u);
            e2 = request (RpcGetAuthUserByEmail encodedEmail) e1
        in case rpc_get_auth_user_by_email b encodedEmail of
             Rejected t \<Rightarrow> Throw t e2
           | Fulfilled r \<Rightarrow>
               (case data r of
                  Some rpcResult \<Rightarrow>
                    if truthy rpcResult
                    then Normal (e2\<lparr>exactMatchProfile := Some \<lparr>profile_id = rpcResult\<rparr>\<rparr>)
                    else Normal e2
                | None \<Rightarrow> Normal e2)
      else Normal e0)"

text \<open>
  Lines 62-92: stage 4. The inner \<^verbatim>\<open>try\<close> (lines 65-87) throws when the insert rejects
  or returns an error; the inner \<^verbatim>\<open>catch\<close> (lines 88-91) records the fatal label and
  throws the same value again.
\<close>

definition insert_profile :: "Backend \<Rightarrow> User \<Rightarrow> exec \<Rightarrow> completion" where
  "insert_profile b u e0 =
     (let e1 = request (InsertProfile (user_email u) (user_id u)) e0
      in case profiles_insert_single b (user_email u) (user_id u) of
           Rejected t \<Rightarrow> Throw t e1
         | Fulfilled r \<Rightarrow>
             (case error r of
                Some profileError' \<Rightarrow>
                  Throw (JsError (''Profile creation blocked by RLS: '' @ message profileError')) e1
              | None \<Rightarrow> Normal (push_stage created_label (e1\<lparr>exactMatchProfile := data r\<rparr>))))"

definition create_profile :: "Backend \<Rightarrow> User \<Rightarrow> exec \<Rightarrow> completion" where
  "create_profile b u e0 =
     (if exactMatchProfile e0 = None then
        (case insert_profile b u (push_stage stage4_label e0) of
           Normal e \<Rightarrow> Normal e
         | Throw t e \<Rightarrow> Throw t (push_stage fatal_label e))
      else Normal e0)"

text \<open>
  Lines 96-100: the query sent for a user: the rows whose \<^verbatim>\<open>login_id\<close> is \<^verbatim>\<open>user.id\<close>,
  ordered by \<^verbatim>\<open>created_at\<close> with \<^verbatim>\<open>ascending: false\<close>, limited to one row.
\<close>

definition tier_query :: "User \<Rightarrow> SubscriptionsQuery" where
  "tier_query u = \<lparr>eq_login_id = user_id u, order_ascending = False, limit_rows = 1\<rparr>"

text \<open>
  Lines 95-123: the subscription query for \<^verbatim>\<open>user.id\<close>. On an error the payload is
  stored in \<^verbatim>\<open>diagnosticData\<close> and the error object is thrown; otherwise
  \<^verbatim>\<open>activeTier = subscriptionData?.[0]?.tier || 'free'\<close> is recorded and published.
\<close>

definition activeTier :: "TierRow list option \<Rightarrow> string" where
  "activeTier subscriptionData =
     (case subscriptionData of
        None \<Rightarrow> ''free''
      | Some [] \<Rightarrow> ''free''
      | Some (row # _) \<Rightarrow> or_free (row_tier row))"

definition lookup_subscription :: "Backend \<Rightarrow> User \<Rightarrow> exec \<Rightarrow> completion" where
  "lookup_subscription b u e0 =
     (let e1 = request (SelectSubscriptions (tier_query u)) e0
      in case subscriptions_select b (tier_query u) of
           Rejected t \<Rightarrow> Throw t e1
         | Fulfilled r \<Rightarrow>
             (case error r of
                Some subscriptionError' \<Rightarrow>
                  Throw (PgError subscriptionError')
                    (assign_diagnosticData
                       ((diagnosticData e1)\<lparr>subscriptionError :=
                           Some \<lparr>message = message subscriptionError',
                                 details = details subscriptionError',
                                 hint = hint subscriptionError',
                                 code = code subscriptionError'\<rparr>\<rparr>) e1)
              | None \<Rightarrow>
                  (let e2 = assign_diagnosticData
                              ((diagnosticData e1)\<lparr>finalTier := Some (activeTier (data r))\<rparr>) e1;
                       e3 = setTier (activeTier (data r)) e2
                   in Normal (setDiagnostics (diagnosticData e3) e3))))"

text \<open>Line 128: \<^verbatim>\<open>error instanceof Error ? error.message : 'Unknown error'\<close>\<close>

definition catch_message :: "Backend \<Rightarrow> thrown \<Rightarrow> string" where
  "catch_message b t =
     (case t of
        JsError m \<Rightarrow> m
      | PgError pe \<Rightarrow> if postgrest_error_instanceof_Error b then message pe else ''Unknown error''
      | NonError \<Rightarrow> ''Unknown error'')"

text \<open>Lines 29-92: the four profile lookup stages, one after the other.\<close>

definition resolve_profile :: "Backend \<Rightarrow> User \<Rightarrow> exec \<Rightarrow> completion" where
  "resolve_profile b u e =
     andThen (andThen (andThen (lookup_exact b u e) (lookup_ci b u)) (lookup_rpc b u))
       (create_profile b u)"

text \<open>Lines 28-123: the body of the outer \<^verbatim>\<open>try\<close>.\<close>

definition try_body :: "Backend \<Rightarrow> User \<Rightarrow> exec \<Rightarrow> completion" where
  "try_body b u e = andThen (resolve_profile b u e) (lookup_subscription b u)"

text \<open>Lines 124-129: the outer \<^verbatim>\<open>catch\<close>.\<close>

definition catch_all :: "Backend \<Rightarrow> completion \<Rightarrow> exec" where
  "catch_all b c =
     (case c of
        Normal e \<Rightarrow> e
      | Throw t e \<Rightarrow>
          setDiagnostics ((diagnosticData e)\<lparr>profileError := Some (catch_message b t)\<rparr>) e)"

definition empty_diagnostics :: DiagnosticData where
  "empty_diagnostics =
     \<lparr>profileLookupStages = [], finalTier = None, subscriptionError = None, profileError = None\<rparr>"

text \<open>
  Lines 25-26: \<^verbatim>\<open>setLoading(true)\<close> and the fresh \<^verbatim>\<open>diagnosticData\<close>; the locals of a
  call start empty.
\<close>

definition entry :: "exec \<Rightarrow> exec" where
  "entry e0 =
     assign_diagnosticData empty_diagnostics ((setLoading True e0)\<lparr>exactMatchProfile := None\<rparr>)"

text \<open>Lines 24-133: \<^verbatim>\<open>resolveSubscriptionTier\<close>, with its \<^verbatim>\<open>finally\<close> last.\<close>

definition resolveSubscriptionTier :: "Backend \<Rightarrow> User \<Rightarrow> exec \<Rightarrow> exec" where
  "resolveSubscriptionTier b u e0 = setLoading False (catch_all b (try_body b u (entry e0)))"

section \<open>The hook\<close>

text \<open>Lines 14-16: the initial values of the three \<^verbatim>\<open>useState\<close> cells.\<close>

definition initial_state :: HookState where
  "initial_state = \<lparr>tier = ''free'', loading = True, diagnostics = empty_diagnostics\<rparr>"

definition start :: "HookState \<Rightarrow> exec" where
  "start h = \<lparr>exactMatchProfile = None, diagnosticData = empty_diagnostics, hook = h, trace = []\<rparr>"

text \<open>
  Lines 18-136: one run of the effect, for the user of the current render, carried to
  the end of the routine it starts.
\<close>

definition effect :: "Backend \<Rightarrow> User option \<Rightarrow> HookState \<Rightarrow> exec" where
  "effect b user h =
     (case user of
        None \<Rightarrow> setLoading False (start h)
      | Some u \<Rightarrow> resolveSubscriptionTier b u (start h))"

text \<open>
  The life of one hook instance: the effect runs once for each change of the user, each
  time against the backend as it answers then. Each run is carried to its end before the
  next one starts; runs that overlap in time are outside this model.
\<close>

fun run_effects :: "(Backend \<times> User option) list \<Rightarrow> HookState \<Rightarrow> HookState" where
  "run_effects [] h = h"
| "run_effects ((b, user) # rest) h = run_effects rest (hook (effect b user h))"

definition useSubscriptionTier :: "(Backend \<times> User option) list \<Rightarrow> HookState" where
  "useSubscriptionTier renders = run_effects renders initial_state"

section \<open>Reading a run\<close>

text \<open>The configuration a block leaves, however it ends.\<close>

definition config_of :: "completion \<Rightarrow> exec" where
  "config_of c = (case c of Normal e \<Rightarrow> e | Throw t e \<Rightarrow> e)"

text \<open>The requests of a trace, and the successive values of \<^verbatim>\<open>diagnosticData\<close>.\<close>

fun calls_of :: "event list \<Rightarrow> call list" where
  "calls_of [] = []"
| "calls_of (BackendCall c # evs) = c # calls_of evs"
| "calls_of (_ # evs) = calls_of evs"

fun diagnosticData_history :: "event list \<Rightarrow> DiagnosticData list" where
  "diagnosticData_history [] = []"
| "diagnosticData_history (DiagnosticDataIs d # evs) = d # diagnosticData_history evs"
| "diagnosticData_history (_ # evs) = diagnosticData_history evs"

fun published :: "event list \<Rightarrow> DiagnosticData list" where
  "published [] = []"
| "published (SetDiagnostics d # evs) = d # published evs"
| "published (_ # evs) = published evs"

fun tiers_set :: "event list \<Rightarrow> string list" where
  "tiers_set [] = []"
| "tiers_set (SetTier t # evs) = t # tiers_set evs"
| "tiers_set (_ # evs) = tiers_set evs"

text \<open>Each list of a sequence extends the one before it.\<close>

fun only_grows :: "'a list list \<Rightarrow> bool" where
  "only_grows (xs # ys # rest) = (prefix xs ys \<and> only_grows (ys # rest))"
| "only_grows _ = True"

text \<open>Every list of a sequence is an initial part of \<open>zs\<close>.\<close>

fun all_prefixes_of :: "'a list \<Rightarrow> 'a list list \<Rightarrow> bool" where
  "all_prefixes_of zs [] = True"
| "all_prefixes_of zs (xs # rest) = (prefix xs zs \<and> all_prefixes_of zs rest)"

subsection \<open>The outcome of each lookup stage\<close>

text \<open>Stage 1 answers and the answer holds no profile.\<close>

definition exact_misses :: "Backend \<Rightarrow> User \<Rightarrow> bool" where
  "exact_misses b u =
     (case profiles_eq_single b (user_email u) of
        Fulfilled r \<Rightarrow> data r = None
      | Rejected t \<Rightarrow> False)"

text \<open>Stage 2 answers and the answer is not an array of exactly one row.\<close>

definition ci_misses :: "Backend \<Rightarrow> User \<Rightarrow> bool" where
  "ci_misses b u =
     (case profiles_ilike b (user_email u) of
        Fulfilled r \<Rightarrow> (case data r of Some rows \<Rightarrow> length rows \<noteq> 1 | None \<Rightarrow> True)
      | Rejected t \<Rightarrow> False)"

text \<open>Stage 3 answers and the answer is \<^verbatim>\<open>null\<close> or another falsy value.\<close>

definition rpc_misses :: "Backend \<Rightarrow> User \<Rightarrow> bool" where
  "rpc_misses b u =
     (case rpc_get_auth_user_by_email b (encodeURIComponent (user_email u)) of
        Fulfilled r \<Rightarrow> (case data r of Some v \<Rightarrow> \<not> truthy v | None \<Rightarrow> True)
      | Rejected t \<Rightarrow> False)"

text \<open>The insert of stage 4 rejects, or answers with an error.\<close>

definition insert_fails :: "Backend \<Rightarrow> User \<Rightarrow> bool" where
  "insert_fails b u =
     (case profiles_insert_single b (user_email u) (user_id u) of
        Fulfilled r \<Rightarrow> error r \<noteq> None
      | Rejected t \<Rightarrow> True)"

text \<open>The tier values among the rows the subscription query returns for a user.\<close>

definition returned_tiers :: "Backend \<Rightarrow> User \<Rightarrow> string set" where
  "returned_tiers b u =
     (case subscriptions_select b (tier_query u) of
        Fulfilled r \<Rightarrow>
          (case data r of Some rows \<Rightarrow> Option.these (set (map row_tier rows)) | None \<Rightarrow> {})
      | Rejected t \<Rightarrow> {})"

fun tiers_offered :: "(Backend \<times> User option) list \<Rightarrow> string set" where
  "tiers_offered [] = {}"
| "tiers_offered ((b, None) # rest) = tiers_offered rest"
| "tiers_offered ((b, Some u) # rest) = returned_tiers b u \<union> tiers_offered rest"

text \<open>A backend whose lookup stages 1 to 3 answer as before, with every error field cleared.\<close>

definition drop_error :: "'a PostgrestResponse awaited \<Rightarrow> 'a PostgrestResponse awaited" where
  "drop_error a = (case a of Fulfilled r \<Rightarrow> Fulfilled (r\<lparr>error := None\<rparr>) | Rejected t \<Rightarrow> Rejected t)"

definition without_lookup_errors :: "Backend \<Rightarrow> Backend" where
  "without_lookup_errors b =
     b\<lparr>profiles_eq_single := (\<lambda>email. drop_error (profiles_eq_single b email)),
       profiles_ilike := (\<lambda>email. drop_error (profiles_ilike b email)),
       rpc_get_auth_user_by_email := (\<lambda>p_email. drop_error (rpc_get_auth_user_by_email b p_email))\<rparr>"

section \<open>The subscription query on a table\<close>

text \<open>
  A backend that holds the \<^verbatim>\<open>subscriptions\<close> table executes whatever query it is sent:
  it keeps the rows whose \<^verbatim>\<open>login_id\<close> is the one asked for, sorts them by
  \<^verbatim>\<open>created_at\<close> in the direction asked for, keeps as many as the limit allows and
  returns their tier column.
\<close>

record SubscriptionRow =
  login_id :: string
  sub_tier :: "string option"
  created_at :: int

definition run_query :: "SubscriptionRow list \<Rightarrow> SubscriptionsQuery \<Rightarrow> TierRow list" where
  "run_query table q =
     (let matching = filter (\<lambda>r. login_id r = eq_login_id q) table;
          ordered = (if order_ascending q then sort_key created_at matching
                     else rev (sort_key created_at matching))
      in map (\<lambda>r. \<lparr>row_tier = sub_tier r\<rparr>) (take (limit_rows q) ordered))"

definition table_subscriptions ::
  "SubscriptionRow list \<Rightarrow> SubscriptionsQuery \<Rightarrow> TierRow list PostgrestResponse awaited" where
  "table_subscriptions table q = Fulfilled \<lparr>data = Some (run_query table q), error = None\<rparr>"

text \<open>
  In the words of the specification, with no reference to the query: the rows of a user
  that have the latest creation timestamp among that user's rows.
\<close>

definition latest_rows :: "SubscriptionRow list \<Rightarrow> string \<Rightarrow> SubscriptionRow list" where
  "latest_rows table uid =
     filter (\<lambda>r. login_id r = uid \<and>
                 (\<forall>r' \<in> set table. login_id r' = uid \<longrightarrow> created_at r' \<le> created_at r))
       table"

section \<open>Sample backends and users\<close>

definition answers :: "'a option \<Rightarrow> 'a PostgrestResponse awaited" where
  "answers d = Fulfilled \<lparr>data = d, error = None\<rparr>"

definition fails_with :: "PostgrestError \<Rightarrow> 'a PostgrestResponse awaited" where
  "fails_with pe = Fulfilled \<lparr>data = None, error = Some pe\<rparr>"

definition scripted ::
  "Profile PostgrestResponse awaited \<Rightarrow> Profile list PostgrestResponse awaited \<Rightarrow>
   json PostgrestResponse awaited \<Rightarrow> Profile PostgrestResponse awaited \<Rightarrow>
   TierRow list PostgrestResponse awaited \<Rightarrow> Backend" where
  "scripted a1 a2 a3 a4 a5 =
     \<lparr>profiles_eq_single = (\<lambda>email. a1),
      profiles_ilike = (\<lambda>email. a2),
      rpc_get_auth_user_by_email = (\<lambda>p_email. a3),
      profiles_insert_single = (\<lambda>email auth_id. a4),
      subscriptions_select = (\<lambda>q. a5),
      postgrest_error_instanceof_Error = True\<rparr>"

definition alice :: User where
  "alice = \<lparr>user_id = ''u-1'', user_email = Some ''alice@example.com''\<rparr>"

definition bob :: User where
  "bob = \<lparr>user_id = ''u-2'', user_email = Some ''bob@example.com''\<rparr>"

definition profile7 :: Profile where
  "profile7 = \<lparr>profile_id = JNumber 7\<rparr>"

definition profile8 :: Profile where
  "profile8 = \<lparr>profile_id = JNumber 8\<rparr>"

definition rls_denied :: PostgrestError where
  "rls_denied = \<lparr>message = ''new row violates row-level security policy'',
                 details = [], hint = [], code = ''42501''\<rparr>"

definition timeout_error :: PostgrestError where
  "timeout_error = \<lparr>message = ''canceling statement due to statement timeout'',
                    details = [], hint = [], code = ''57014''\<rparr>"

text \<open>Alice's two subscriptions, the newer one on the pro tier, and one of Bob's.\<close>

definition sample_table :: "SubscriptionRow list" where
  "sample_table =
     [\<lparr>login_id = ''u-1'', sub_tier = Some ''basic'', created_at = 100\<rparr>,
      \<lparr>login_id = ''u-2'', sub_tier = Some ''team'', created_at = 300\<rparr>,
      \<lparr>login_id = ''u-1'', sub_tier = Some ''pro'', created_at = 200\<rparr>]"

text \<open>A table whose newest row for Alice has the empty string in its tier column.\<close>

definition blank_tier_table :: "SubscriptionRow list" where
  "blank_tier_table =
     [\<lparr>login_id = ''u-1'', sub_tier = Some ''pro'', created_at = 100\<rparr>,
      \<lparr>login_id = ''u-1'', sub_tier = Some [], created_at = 200\<rparr>]"

text \<open>Stage 1 finds the profile; the subscription query is answered from a table.\<close>

definition known_user_backend :: "SubscriptionRow list \<Rightarrow> Backend" where
  "known_user_backend table =
     (scripted (answers (Some profile7)) (answers (Some [])) (answers None) (answers None)
        (answers None))
     \<lparr>subscriptions_select := table_subscriptions table\<rparr>"

text \<open>No stage finds a profile and the insert is refused by the row-level policy.\<close>

definition refusing_backend :: Backend where
  "refusing_backend =
     scripted (answers None) (answers (Some [])) (answers None) (fails_with rls_denied)
       (answers (Some [\<lparr>row_tier = Some ''team''\<rparr>]))"

text \<open>Stage 1 finds nothing and the case-insensitive match returns two rows.\<close>

definition ambiguous_backend :: Backend where
  "ambiguous_backend =
     scripted (answers None) (answers (Some [profile7, profile8])) (answers (Some (JString ''p-9'')))
       (answers None) (answers (Some [\<lparr>row_tier = Some ''pro''\<rparr>]))"

text \<open>Stage 1 finds nothing and the case-insensitive match returns one row.\<close>

definition single_ci_backend :: Backend where
  "single_ci_backend =
     scripted (answers None) (answers (Some [profile8])) (answers None)
       (answers None) (answers (Some [\<lparr>row_tier = Some ''pro''\<rparr>]))"

text \<open>
  Stage 1 finds the profile and the subscription query returns an error: the statement
  on the table times out, whatever rows the table holds.
\<close>

definition broken_subscriptions_backend :: Backend where
  "broken_subscriptions_backend =
     scripted (answers (Some profile7)) (answers None) (answers None) (answers None)
       (fails_with timeout_error)"

text \<open>The three lookups fail with errors, the insert and the subscription query succeed.\<close>

definition failing_lookups_backend :: Backend where
  "failing_lookups_backend =
     scripted (fails_with timeout_error) (fails_with timeout_error) (fails_with timeout_error)
       (answers (Some profile8)) (answers (Some [\<lparr>row_tier = Some ''pro''\<rparr>]))"

section \<open>Proofs: the profile lookup stages\<close>

lemmas setter_defs = setLoading_def setTier_def setDiagnostics_def assign_diagnosticData_def
  push_stage_def request_def emit_def

lemmas lookup_defs = resolve_profile_def lookup_exact_def lookup_ci_def lookup_rpc_def
  create_profile_def insert_profile_def andThen_def config_of_def Let_def

lemma calls_of_append [simp]: "calls_of (xs @ ys) = calls_of xs @ calls_of ys"
  by (induction xs rule: calls_of.induct) simp_all

lemma tiers_set_append [simp]: "tiers_set (xs @ ys) = tiers_set xs @ tiers_set ys"
  by (induction xs rule: tiers_set.induct) simp_all

lemma published_append [simp]: "published (xs @ ys) = published xs @ published ys"
  by (induction xs rule: published.induct) simp_all

lemma history_append [simp]:
  "diagnosticData_history (xs @ ys) = diagnosticData_history xs @ diagnosticData_history ys"
  by (induction xs rule: diagnosticData_history.induct) simp_all

lemma resolve_profile_hook: "hook (config_of (resolve_profile b u e)) = hook e"
  by (simp add: lookup_defs setter_defs split: awaited.splits option.splits)

lemma resolve_profile_tiers_set:
  "tiers_set (trace (config_of (resolve_profile b u e))) = tiers_set (trace e)"
  by (simp add: lookup_defs setter_defs split: awaited.splits option.splits)

lemma resolve_profile_published:
  "published (trace (config_of (resolve_profile b u e))) = published (trace e)"
  by (simp add: lookup_defs setter_defs split: awaited.splits option.splits)

lemma resolve_profile_no_subscription_call:
  "SelectSubscriptions x \<in> set (calls_of (trace (config_of (resolve_profile b u e))))
   \<longleftrightarrow> SelectSubscriptions x \<in> set (calls_of (trace e))"
  by (simp add: lookup_defs setter_defs split: awaited.splits option.splits)

lemma resolve_profile_errors:
  "finalTier (diagnosticData (config_of (resolve_profile b u e))) = finalTier (diagnosticData e) \<and>
   subscriptionError (diagnosticData (config_of (resolve_profile b u e))) = subscriptionError (diagnosticData e) \<and>
   profileError (diagnosticData (config_of (resolve_profile b u e))) = profileError (diagnosticData e)"
  by (simp add: lookup_defs setter_defs split: awaited.splits option.splits)

section \<open>Proofs: a whole run of the effect\<close>

lemma effect_Some:
  "effect b (Some u) h =
     setLoading False (catch_all b (andThen (resolve_profile b u (entry (start h))) (lookup_subscription b u)))"
  by (simp add: effect_def resolveSubscriptionTier_def try_body_def)

lemma entry_simps:
  "hook (entry (start h)) = h\<lparr>loading := True\<rparr>"
  "calls_of (trace (entry (start h))) = []"
  "tiers_set (trace (entry (start h))) = []"
  "published (trace (entry (start h))) = []"
  "diagnosticData (entry (start h)) = empty_diagnostics"
  by (simp_all add: entry_def setter_defs start_def)

lemma effect_after_throw:
  assumes "resolve_profile b u (entry (start h)) = Throw t e'"
  shows "tier (hook (effect b (Some u) h)) = tier h"
    and "tiers_set (trace (effect b (Some u) h)) = []"
    and "SelectSubscriptions x \<notin> set (calls_of (trace (effect b (Some u) h)))"
proof -
  have c: "config_of (resolve_profile b u (entry (start h))) = e'"
    using assms by (simp add: config_of_def)
  have "hook e' = h\<lparr>loading := True\<rparr>"
    using resolve_profile_hook [of b u "entry (start h)"] by (simp add: c entry_simps)
  then show "tier (hook (effect b (Some u) h)) = tier h"
    by (simp add: effect_Some assms andThen_def catch_all_def setter_defs)
  have "tiers_set (trace e') = []"
    using resolve_profile_tiers_set [of b u "entry (start h)"] by (simp add: c entry_simps)
  then show "tiers_set (trace (effect b (Some u) h)) = []"
    by (simp add: effect_Some assms andThen_def catch_all_def setter_defs)
  have "SelectSubscriptions x \<notin> set (calls_of (trace e'))"
    using resolve_profile_no_subscription_call [of x b u "entry (start h)"] by (simp add: c entry_simps)
  then show "SelectSubscriptions x \<notin> set (calls_of (trace (effect b (Some u) h)))"
    by (simp add: effect_Some assms andThen_def catch_all_def setter_defs)
qed

lemma effect_after_profile:
  assumes "resolve_profile b u (entry (start h)) = Normal e'"
  shows "effect b (Some u) h = setLoading False (catch_all b (lookup_subscription b u e'))"
    and "hook e' = h\<lparr>loading := True\<rparr>"
    and "tiers_set (trace e') = []"
    and "published (trace e') = []"
    and "finalTier (diagnosticData e') = None"
    and "subscriptionError (diagnosticData e') = None"
    and "profileError (diagnosticData e') = None"
proof -
  have c: "config_of (resolve_profile b u (entry (start h))) = e'"
    using assms by (simp add: config_of_def)
  show "effect b (Some u) h = setLoading False (catch_all b (lookup_subscription b u e'))"
    by (simp add: effect_Some assms andThen_def)
  show "hook e' = h\<lparr>loading := True\<rparr>"
    using resolve_profile_hook [of b u "entry (start h)"] by (simp add: c entry_simps)
  show "tiers_set (trace e') = []"
    using resolve_profile_tiers_set [of b u "entry (start h)"] by (simp add: c entry_simps)
  show "published (trace e') = []"
    using resolve_profile_published [of b u "entry (start h)"] by (simp add: c entry_simps)
  show "finalTier (diagnosticData e') = None" "subscriptionError (diagnosticData e') = None"
     "profileError (diagnosticData e') = None"
    using resolve_profile_errors [of b u "entry (start h)"] by (simp_all add: c entry_simps empty_diagnostics_def)
qed

lemma reached_subscription_query:
  assumes "subscriptions_select b (tier_query u) = Fulfilled r" and "error r = None"
    and "SelectSubscriptions (tier_query u) \<in> set (calls_of (trace (effect b (Some u) h)))"
  shows "tier (hook (effect b (Some u) h)) = activeTier (data r) \<and>
         finalTier (diagnostics (hook (effect b (Some u) h))) = Some (activeTier (data r))"
proof (cases "resolve_profile b u (entry (start h))")
  case (Throw t e')
  then show ?thesis using assms(3) effect_after_throw(3) by blast
next
  case (Normal e')
  show ?thesis
    using assms(1,2)
    by (simp add: effect_after_profile [OF Normal] lookup_subscription_def catch_all_def
        setter_defs Let_def)
qed

section \<open>Sample runs\<close>

lemmas sample_defs = scripted_def answers_def fails_with_def alice_def bob_def profile7_def
  profile8_def rls_denied_def timeout_error_def known_user_backend_def refusing_backend_def
  ambiguous_backend_def single_ci_backend_def broken_subscriptions_backend_def
  failing_lookups_backend_def

lemma alice_query:
  "tier_query alice = \<lparr>eq_login_id = ''u-1'', order_ascending = False, limit_rows = 1\<rparr>"
  by (simp add: tier_query_def alice_def)

lemma sample_query:
  "run_query sample_table (tier_query alice) = [\<lparr>row_tier = Some ''pro''\<rparr>]"
  "run_query sample_table (tier_query bob) = [\<lparr>row_tier = Some ''team''\<rparr>]"
  by (simp_all add: run_query_def tier_query_def alice_def bob_def sample_table_def)

lemma blank_query:
  "run_query blank_tier_table (tier_query alice) = [\<lparr>row_tier = Some []\<rparr>]"
  by (simp add: run_query_def tier_query_def alice_def blank_tier_table_def)

lemma sample_latest:
  "latest_rows sample_table (user_id alice) =
     [\<lparr>login_id = ''u-1'', sub_tier = Some ''pro'', created_at = 200\<rparr>]"
  "latest_rows blank_tier_table (user_id alice) =
     [\<lparr>login_id = ''u-1'', sub_tier = Some [], created_at = 200\<rparr>]"
  by (simp_all add: latest_rows_def alice_def sample_table_def blank_tier_table_def)

lemma known_user_backend_simps:
  "profiles_eq_single (known_user_backend table) email = Fulfilled \<lparr>data = Some profile7, error = None\<rparr>"
  "subscriptions_select (known_user_backend table) = table_subscriptions table"
  by (simp_all add: known_user_backend_def scripted_def answers_def)

lemma broken_backend_simps:
  "profiles_eq_single broken_subscriptions_backend email =
     Fulfilled \<lparr>data = Some profile7, error = None\<rparr>"
  "subscriptions_select broken_subscriptions_backend q =
     Fulfilled \<lparr>data = None, error = Some timeout_error\<rparr>"
  by (simp_all add: broken_subscriptions_backend_def scripted_def answers_def fails_with_def)

lemma known_user_run:
  "hook (effect (known_user_backend table) (Some u) h) =
     \<lparr>tier = activeTier (Some (run_query table (tier_query u))), loading = False,
      diagnostics = \<lparr>profileLookupStages = [stage1_label],
                     finalTier = Some (activeTier (Some (run_query table (tier_query u)))),
                     subscriptionError = None, profileError = None\<rparr>\<rparr>"
  "calls_of (trace (effect (known_user_backend table) (Some u) h)) =
     [SelectProfileExact (user_email u), SelectSubscriptions (tier_query u)]"
  by (simp_all add: effect_def resolveSubscriptionTier_def try_body_def entry_def start_def
        catch_all_def lookup_subscription_def empty_diagnostics_def table_subscriptions_def
        lookup_defs setter_defs known_user_backend_simps)

lemma broken_run:
  "calls_of (trace (effect broken_subscriptions_backend (Some u) h)) =
     [SelectProfileExact (user_email u), SelectSubscriptions (tier_query u)]"
  "tier (hook (effect broken_subscriptions_backend (Some u) h)) = tier h"
  "tiers_set (trace (effect broken_subscriptions_backend (Some u) h)) = []"
  "profileLookupStages (diagnostics (hook (effect broken_subscriptions_backend (Some u) h))) =
     [stage1_label]"
  by (simp_all add: effect_def resolveSubscriptionTier_def try_body_def entry_def start_def
        catch_all_def lookup_subscription_def empty_diagnostics_def
        lookup_defs setter_defs broken_backend_simps)

lemma encoded_alice: "encodeURIComponent (Some ''alice@example.com'') = ''alice%40example.com''"
  by (simp add: encodeURIComponent_def percent_encode_def uri_unreserved_def hex_digit_def)

section \<open>Proofs: the newest subscription row\<close>

lemma newest_first_max:
  assumes "rev (sort_key created_at rows) = r # rest"
  shows "r \<in> set rows \<and> (\<forall>r' \<in> set rows. created_at r' \<le> created_at r)"
proof -
  have s: "sort_key created_at rows = rev rest @ [r]"
    using assms by (simp add: rev_swap)
  have "sorted (map created_at (rev rest @ [r]))"
    using sorted_sort_key [of created_at rows] by (simp only: s)
  then have le: "\<forall>x \<in> set rest. created_at x \<le> created_at r"
    by (simp add: sorted_append)
  have "set rows = set (rev rest @ [r])"
    using set_sort [of created_at rows] by (simp only: s)
  then show ?thesis using le by auto
qed

lemma tier_query_on_table:
  "if \<exists>r \<in> set table. login_id r = user_id u
   then \<exists>r \<in> set table. login_id r = user_id u \<and>
          (\<forall>r' \<in> set table. login_id r' = user_id u \<longrightarrow> created_at r' \<le> created_at r) \<and>
          activeTier (Some (run_query table (tier_query u))) = or_free (sub_tier r)
   else activeTier (Some (run_query table (tier_query u))) = ''free''"
proof -
  let ?m = "filter (\<lambda>r. login_id r = user_id u) table"
  have q: "run_query table (tier_query u) =
             map (\<lambda>r. \<lparr>row_tier = sub_tier r\<rparr>) (take 1 (rev (sort_key created_at ?m)))"
    by (simp add: run_query_def tier_query_def)
  show ?thesis
  proof (cases "rev (sort_key created_at ?m)")
    case Nil
    then have "length ?m = 0"
      by (metis length_rev length_sort list.size(3))
    then have "\<not> (\<exists>r \<in> set table. login_id r = user_id u)"
      by (simp add: filter_empty_conv)
    then show ?thesis by (simp add: q Nil activeTier_def)
  next
    case (Cons r rest)
    from newest_first_max [OF Cons]
    have "r \<in> set ?m" and "\<forall>r' \<in> set ?m. created_at r' \<le> created_at r" by simp_all
    then have "r \<in> set table" "login_id r = user_id u"
      "\<forall>r' \<in> set table. login_id r' = user_id u \<longrightarrow> created_at r' \<le> created_at r"
      by auto
    moreover have "activeTier (Some (run_query table (tier_query u))) = or_free (sub_tier r)"
      by (simp add: q Cons activeTier_def)
    ultimately show ?thesis by auto
  qed
qed

text \<open>
  Claim C1, as amended. When a run reaches the subscription query (the query of lines
  96-100: the user's id, newest first, one row) and the backend answers it without an
  error by executing it on the rows of its table: if the table has rows for the user's
  id, the tier set and the recorded \<^verbatim>\<open>finalTier\<close> are those of a row of that user with the
  latest creation timestamp, read through \<^verbatim>\<open>|| 'free'\<close> (the tier field when it is a
  non-empty string, \<^verbatim>\<open>free\<close> when it is empty or null); if the table has no row for the
  user, both are \<^verbatim>\<open>free\<close>.
\<close>

theorem tier_from_newest_subscription:
  assumes "subscriptions_select b = table_subscriptions table"
    and "SelectSubscriptions (tier_query u) \<in> set (calls_of (trace (effect b (Some u) h)))"
  shows "(if \<exists>r \<in> set table. login_id r = user_id u
          then \<exists>r \<in> set table. login_id r = user_id u \<and>
                 (\<forall>r' \<in> set table. login_id r' = user_id u \<longrightarrow> created_at r' \<le> created_at r) \<and>
                 tier (hook (effect b (Some u) h)) = or_free (sub_tier r) \<and>
                 finalTier (diagnostics (hook (effect b (Some u) h))) = Some (or_free (sub_tier r))
          else tier (hook (effect b (Some u) h)) = ''free'' \<and>
               finalTier (diagnostics (hook (effect b (Some u) h))) = Some ''free'')"
proof -
  have s: "subscriptions_select b (tier_query u) =
             Fulfilled \<lparr>data = Some (run_query table (tier_query u)), error = None\<rparr>"
    by (simp add: assms(1) table_subscriptions_def)
  have t: "tier (hook (effect b (Some u) h)) = activeTier (Some (run_query table (tier_query u)))"
    and f: "finalTier (diagnostics (hook (effect b (Some u) h))) =
            Some (activeTier (Some (run_query table (tier_query u))))"
    using reached_subscription_query [OF s _ assms(2)] by simp_all
  show ?thesis
    using tier_query_on_table [of table u] by (simp add: t f split: if_splits)
qed

theorem tier_from_newest_subscription_witness:
  "subscriptions_select (known_user_backend sample_table) = table_subscriptions sample_table \<and>
   SelectSubscriptions \<lparr>eq_login_id = ''u-1'', order_ascending = False, limit_rows = 1\<rparr> \<in>
     set (calls_of (trace (effect (known_user_backend sample_table) (Some alice) initial_state))) \<and>
   tier (hook (effect (known_user_backend sample_table) (Some alice) initial_state)) = ''pro'' \<and>
   finalTier (diagnostics (hook (effect (known_user_backend sample_table) (Some alice) initial_state)))
     = Some ''pro''"
proof -
  have h1: "subscriptions_select (known_user_backend sample_table) = table_subscriptions sample_table"
    by (rule known_user_backend_simps)
  have h2: "SelectSubscriptions (tier_query alice) \<in>
     set (calls_of (trace (effect (known_user_backend sample_table) (Some alice) initial_state)))"
    by (simp add: known_user_run)
  have "\<exists>r \<in> set sample_table. login_id r = user_id alice \<and>
          (\<forall>r' \<in> set sample_table. login_id r' = user_id alice \<longrightarrow> created_at r' \<le> created_at r) \<and>
          tier (hook (effect (known_user_backend sample_table) (Some alice) initial_state))
            = or_free (sub_tier r) \<and>
          finalTier (diagnostics (hook (effect (known_user_backend sample_table) (Some alice)
            initial_state))) = Some (or_free (sub_tier r))"
    using tier_from_newest_subscription [OF h1 h2] by (simp add: sample_table_def alice_def)
  then have "tier (hook (effect (known_user_backend sample_table) (Some alice) initial_state)) = ''pro'' \<and>
      finalTier (diagnostics (hook (effect (known_user_backend sample_table) (Some alice)
            initial_state))) = Some ''pro''"
    by (auto simp: sample_table_def alice_def or_free_def)
  with h1 h2 show ?thesis by (simp add: alice_query)
qed

text \<open>
  Claim C1 as first stated fails in two ways. Where the newest row holds the empty
  string, the run reaches the query, the backend executes it on the table, and the tier
  set is \<^verbatim>\<open>free\<close>, which is not that row's tier field. Where the query returns an error,
  the run reaches the query and sets no tier: after Bob's run the tier is still Bob's
  \<^verbatim>\<open>team\<close>, although Alice's newest row says \<^verbatim>\<open>pro\<close>.
\<close>

theorem newest_tier_counterexample:
  "subscriptions_select (known_user_backend blank_tier_table) = table_subscriptions blank_tier_table \<and>
   SelectSubscriptions (tier_query alice) \<in>
     set (calls_of (trace (effect (known_user_backend blank_tier_table) (Some alice) initial_state))) \<and>
   latest_rows blank_tier_table (user_id alice) =
     [\<lparr>login_id = ''u-1'', sub_tier = Some [], created_at = 200\<rparr>] \<and>
   tier (hook (effect (known_user_backend blank_tier_table) (Some alice) initial_state)) = ''free'' \<and>
   SelectSubscriptions (tier_query alice) \<in>
     set (calls_of (trace (effect broken_subscriptions_backend (Some alice)
       (useSubscriptionTier [(known_user_backend sample_table, Some bob)])))) \<and>
   latest_rows sample_table (user_id alice) =
     [\<lparr>login_id = ''u-1'', sub_tier = Some ''pro'', created_at = 200\<rparr>] \<and>
   tier (useSubscriptionTier
          [(known_user_backend sample_table, Some bob), (broken_subscriptions_backend, Some alice)])
     = ''team''"
  by (simp add: known_user_backend_simps known_user_run broken_run sample_latest blank_query
      sample_query useSubscriptionTier_def activeTier_def or_free_def)

section \<open>Proofs: the loading flag\<close>

text \<open>
  Claim C8. Whatever the backend answers and whichever path the routine takes, the
  \<^verbatim>\<open>finally\<close> block runs last: the loading flag is false when the routine ends, and
  \<^verbatim>\<open>setLoading(false)\<close> is its last effect.
\<close>

theorem loading_cleared:
  "\<not> loading (hook (resolveSubscriptionTier b u e)) \<and>
   last (trace (resolveSubscriptionTier b u e)) = SetLoading False"
  by (simp add: resolveSubscriptionTier_def setLoading_def emit_def)

theorem loading_cleared_witness:
  "\<not> loading (hook (resolveSubscriptionTier refusing_backend alice (start initial_state))) \<and>
   last (trace (resolveSubscriptionTier broken_subscriptions_backend bob (start initial_state)))
     = SetLoading False"
  using loading_cleared [of refusing_backend alice "start initial_state"]
    loading_cleared [of broken_subscriptions_backend bob "start initial_state"]
  by simp

section \<open>Proofs: the failed profile creation\<close>

lemma rejected_or_error:
  assumes "insert_fails b u"
  obtains t where "profiles_insert_single b (user_email u) (user_id u) = Rejected t"
  | r pe where "profiles_insert_single b (user_email u) (user_id u) = Fulfilled r" "error r = Some pe"
  using assms by (auto simp: insert_fails_def split: awaited.splits)

lemma three_misses:
  assumes "exact_misses b u" "ci_misses b u" "rpc_misses b u"
  shows "resolve_profile b u (entry (start h)) =
     create_profile b u \<lparr>exactMatchProfile = None,
             diagnosticData = empty_diagnostics\<lparr>profileLookupStages := [stage1_label, stage2_label, stage3_label]\<rparr>,
             hook = h\<lparr>loading := True\<rparr>,
             trace = [SetLoading True, DiagnosticDataIs empty_diagnostics,
                DiagnosticDataIs (empty_diagnostics\<lparr>profileLookupStages := [stage1_label]\<rparr>),
                BackendCall (SelectProfileExact (user_email u)),
                DiagnosticDataIs (empty_diagnostics\<lparr>profileLookupStages := [stage1_label, stage2_label]\<rparr>),
                BackendCall (SelectProfileIlike (user_email u)),
                DiagnosticDataIs (empty_diagnostics\<lparr>profileLookupStages := [stage1_label, stage2_label, stage3_label]\<rparr>),
                BackendCall (RpcGetAuthUserByEmail (encodeURIComponent (user_email u)))]\<rparr>"
  using assms
  by (auto simp: exact_misses_def ci_misses_def rpc_misses_def resolve_profile_def
      lookup_exact_def lookup_ci_def lookup_rpc_def andThen_def Let_def entry_def start_def setter_defs empty_diagnostics_def
      split: awaited.splits option.splits)

text \<open>
  Claim C2, as amended. When stages 1 to 3 find no profile and the insert of stage 4 fails
  (it rejects, or answers with an error), the run sends the four profile requests once
  each and never the subscription query; the published stage list ends with the fatal
  label; a textual \<^verbatim>\<open>profileError\<close> is published (the message built on line 83 when the
  insert answered with an error); \<^verbatim>\<open>setTier\<close> is never called, so the tier keeps the
  value it had before the run: \<^verbatim>\<open>free\<close> when no earlier run of the hook set another.
\<close>

theorem failed_insert_aborts:
  assumes "exact_misses b u" and "ci_misses b u" and "rpc_misses b u" and "insert_fails b u"
  shows "calls_of (trace (effect b (Some u) h)) =
           [SelectProfileExact (user_email u), SelectProfileIlike (user_email u),
            RpcGetAuthUserByEmail (encodeURIComponent (user_email u)),
            InsertProfile (user_email u) (user_id u)] \<and>
         profileLookupStages (diagnostics (hook (effect b (Some u) h))) =
           [stage1_label, stage2_label, stage3_label, stage4_label, fatal_label] \<and>
         profileError (diagnostics (hook (effect b (Some u) h))) \<noteq> None \<and>
         (\<forall>r pe. profiles_insert_single b (user_email u) (user_id u) = Fulfilled r \<and>
                 error r = Some pe \<longrightarrow>
            profileError (diagnostics (hook (effect b (Some u) h))) =
              Some (''Profile creation blocked by RLS: '' @ message pe)) \<and>
         tiers_set (trace (effect b (Some u) h)) = [] \<and>
         tier (hook (effect b (Some u) h)) = tier h"
proof -
  note m = three_misses [OF assms(1-3), of h]
  from assms(4) show ?thesis
  proof (cases rule: rejected_or_error)
    case (1 t)
    then show ?thesis
      by (simp add: effect_Some m andThen_def create_profile_def
          insert_profile_def catch_all_def setter_defs Let_def empty_diagnostics_def)
  next
    case (2 r pe)
    then show ?thesis
      by (simp add: effect_Some m andThen_def create_profile_def
          insert_profile_def catch_all_def catch_message_def setter_defs Let_def empty_diagnostics_def)
  qed
qed

theorem failed_insert_aborts_witness:
  "exact_misses refusing_backend alice \<and> ci_misses refusing_backend alice \<and>
   rpc_misses refusing_backend alice \<and> insert_fails refusing_backend alice \<and>
   calls_of (trace (effect refusing_backend (Some alice) initial_state)) =
     [SelectProfileExact (Some ''alice@example.com''), SelectProfileIlike (Some ''alice@example.com''),
      RpcGetAuthUserByEmail ''alice%40example.com'',
      InsertProfile (Some ''alice@example.com'') ''u-1''] \<and>
   profileLookupStages (diagnostics (hook (effect refusing_backend (Some alice) initial_state))) =
     [stage1_label, stage2_label, stage3_label, stage4_label, fatal_label] \<and>
   profileError (diagnostics (hook (effect refusing_backend (Some alice) initial_state))) =
     Some ''Profile creation blocked by RLS: new row violates row-level security policy'' \<and>
   tier (hook (effect refusing_backend (Some alice) initial_state)) = ''free''"
proof -
  have h: "exact_misses refusing_backend alice" "ci_misses refusing_backend alice"
    "rpc_misses refusing_backend alice" "insert_fails refusing_backend alice"
    by (simp_all add: exact_misses_def ci_misses_def rpc_misses_def insert_fails_def sample_defs)
  have i: "profiles_insert_single refusing_backend (user_email alice) (user_id alice) =
             Fulfilled \<lparr>data = None, error = Some rls_denied\<rparr>"
    by (simp add: refusing_backend_def scripted_def fails_with_def)
  have e: "encodeURIComponent (Some ''alice@example.com'') = ''alice%40example.com''"
    by (simp add: encodeURIComponent_def percent_encode_def uri_unreserved_def hex_digit_def)
  have a: "user_email alice = Some ''alice@example.com''" "user_id alice = ''u-1''"
    by (simp_all add: alice_def)
  have t: "tier initial_state = ''free''" by (simp add: initial_state_def)
  have m: "message rls_denied = ''new row violates row-level security policy''"
    by (simp add: rls_denied_def)
  from failed_insert_aborts [OF h, of initial_state] i show ?thesis
    using h by (simp add: e a t m)
qed

text \<open>
  Claim C2 as first stated fails after an earlier successful run: Alice's run sets the
  tier \<^verbatim>\<open>pro\<close>, the user changes to Bob, whose lookups find nothing and whose insert is
  refused, and the tier is still \<^verbatim>\<open>pro\<close>, not \<^verbatim>\<open>free\<close>.
\<close>

theorem stale_tier_counterexample:
  "exact_misses refusing_backend bob \<and> ci_misses refusing_backend bob \<and>
   rpc_misses refusing_backend bob \<and> insert_fails refusing_backend bob \<and>
   tier (useSubscriptionTier
          [(known_user_backend sample_table, Some alice), (refusing_backend, Some bob)]) = ''pro'' \<and>
   tier (useSubscriptionTier
          [(known_user_backend sample_table, Some alice), (refusing_backend, Some bob)]) \<noteq> ''free''"
proof -
  have h: "exact_misses refusing_backend bob" "ci_misses refusing_backend bob"
    "rpc_misses refusing_backend bob" "insert_fails refusing_backend bob"
    by (simp_all add: exact_misses_def ci_misses_def rpc_misses_def insert_fails_def sample_defs)
  have "tier (hook (effect refusing_backend (Some bob) h)) = tier h" for h
    by (simp add: effect_Some three_misses [OF h(1-3)] andThen_def
        create_profile_def insert_profile_def catch_all_def setter_defs Let_def)
       (simp add: refusing_backend_def scripted_def fails_with_def setter_defs)
  then show ?thesis
    using h
    by (simp add: useSubscriptionTier_def known_user_run sample_query activeTier_def or_free_def)
qed

section \<open>Proofs: the short circuit at stage 1\<close>

lemma exact_hit:
  assumes "profiles_eq_single b (user_email u) = Fulfilled r1" and "data r1 = Some p"
  shows "resolve_profile b u (entry (start h)) =
     Normal \<lparr>exactMatchProfile = Some p,
             diagnosticData = empty_diagnostics\<lparr>profileLookupStages := [stage1_label]\<rparr>,
             hook = h\<lparr>loading := True\<rparr>,
             trace = [SetLoading True, DiagnosticDataIs empty_diagnostics,
                DiagnosticDataIs (empty_diagnostics\<lparr>profileLookupStages := [stage1_label]\<rparr>),
                BackendCall (SelectProfileExact (user_email u))]\<rparr>"
  using assms
  by (simp add: lookup_defs entry_def start_def setter_defs empty_diagnostics_def)

text \<open>
  Claim C3, as amended. When the exact match of stage 1 returns a profile, the published
  stage list holds the stage 1 label alone and the only requests are the exact match and
  then the subscription query: stages 2, 3 and 4 do not run. When that query answers
  without an error, the tier is the one its answer gives through \<^verbatim>\<open>|| 'free'\<close>; for a
  backend that executes the query on its table, it is read from a row of the user with the
  latest creation timestamp (\<^verbatim>\<open>free\<close> when that row's tier is empty or null, or when there
  is no row). When the query answers with an error or rejects, no tier is set and the tier
  keeps the value it had.
\<close>

theorem exact_match_short_circuits:
  assumes "profiles_eq_single b (user_email u) = Fulfilled r1" and "data r1 = Some p"
  shows "profileLookupStages (diagnostics (hook (effect b (Some u) h))) = [stage1_label] \<and>
         calls_of (trace (effect b (Some u) h)) =
           [SelectProfileExact (user_email u), SelectSubscriptions (tier_query u)] \<and>
         (\<forall>r. subscriptions_select b (tier_query u) = Fulfilled r \<and> error r = None \<longrightarrow>
              tier (hook (effect b (Some u) h)) = activeTier (data r)) \<and>
         (\<forall>table. subscriptions_select b = table_subscriptions table \<longrightarrow>
              (if \<exists>r \<in> set table. login_id r = user_id u
               then \<exists>r \<in> set table. login_id r = user_id u \<and>
                      (\<forall>r' \<in> set table. login_id r' = user_id u \<longrightarrow>
                          created_at r' \<le> created_at r) \<and>
                      tier (hook (effect b (Some u) h)) = or_free (sub_tier r)
               else tier (hook (effect b (Some u) h)) = ''free'')) \<and>
         (\<forall>r pe. subscriptions_select b (tier_query u) = Fulfilled r \<and> error r = Some pe \<longrightarrow>
              tier (hook (effect b (Some u) h)) = tier h \<and>
              tiers_set (trace (effect b (Some u) h)) = []) \<and>
         (\<forall>t. subscriptions_select b (tier_query u) = Rejected t \<longrightarrow>
              tier (hook (effect b (Some u) h)) = tier h \<and>
              tiers_set (trace (effect b (Some u) h)) = [])"
proof -
  note x = exact_hit [OF assms, of h]
  have stages: "profileLookupStages (diagnostics (hook (effect b (Some u) h))) = [stage1_label]"
    by (simp add: effect_Some x andThen_def lookup_subscription_def catch_all_def setter_defs
        Let_def empty_diagnostics_def split: awaited.splits option.splits)
  have calls: "calls_of (trace (effect b (Some u) h)) =
           [SelectProfileExact (user_email u), SelectSubscriptions (tier_query u)]"
    by (simp add: effect_Some x andThen_def lookup_subscription_def catch_all_def setter_defs
        Let_def split: awaited.splits option.splits)
  have tier: "tier (hook (effect b (Some u) h)) = activeTier (data r)"
    if "subscriptions_select b (tier_query u) = Fulfilled r" "error r = None" for r
    using reached_subscription_query [OF that] calls by simp
  have from_table: "if \<exists>r \<in> set table. login_id r = user_id u
       then \<exists>r \<in> set table. login_id r = user_id u \<and>
              (\<forall>r' \<in> set table. login_id r' = user_id u \<longrightarrow> created_at r' \<le> created_at r) \<and>
              tier (hook (effect b (Some u) h)) = or_free (sub_tier r)
       else tier (hook (effect b (Some u) h)) = ''free''"
    if t: "subscriptions_select b = table_subscriptions table" for table
  proof -
    have "tier (hook (effect b (Some u) h)) = activeTier (Some (run_query table (tier_query u)))"
      using tier [of "\<lparr>data = Some (run_query table (tier_query u)), error = None\<rparr>"]
      by (simp add: t table_subscriptions_def)
    then show ?thesis
      using tier_query_on_table [of table u] by (simp split: if_splits)
  qed
  have failed: "tier (hook (effect b (Some u) h)) = tier h \<and>
                tiers_set (trace (effect b (Some u) h)) = []"
    if "subscriptions_select b (tier_query u) = Fulfilled r" "error r = Some pe" for r pe
    using that
    by (simp add: effect_Some x andThen_def lookup_subscription_def catch_all_def setter_defs
        Let_def)
  have rejected: "tier (hook (effect b (Some u) h)) = tier h \<and>
                tiers_set (trace (effect b (Some u) h)) = []"
    if "subscriptions_select b (tier_query u) = Rejected t" for t
    using that
    by (simp add: effect_Some x andThen_def lookup_subscription_def catch_all_def setter_defs
        Let_def)
  from stages calls tier from_table failed rejected show ?thesis by blast
qed

theorem exact_match_short_circuits_witness:
  "profiles_eq_single (known_user_backend sample_table) (user_email alice) =
     Fulfilled \<lparr>data = Some profile7, error = None\<rparr> \<and>
   subscriptions_select (known_user_backend sample_table) = table_subscriptions sample_table \<and>
   profileLookupStages (diagnostics (hook (effect (known_user_backend sample_table) (Some alice)
     initial_state))) = [stage1_label] \<and>
   calls_of (trace (effect (known_user_backend sample_table) (Some alice) initial_state)) =
     [SelectProfileExact (Some ''alice@example.com''),
      SelectSubscriptions \<lparr>eq_login_id = ''u-1'', order_ascending = False, limit_rows = 1\<rparr>] \<and>
   tier (hook (effect (known_user_backend sample_table) (Some alice) initial_state)) = ''pro''"
proof -
  have h1: "profiles_eq_single (known_user_backend sample_table) (user_email alice) =
     Fulfilled \<lparr>data = Some profile7, error = None\<rparr>"
    by (rule known_user_backend_simps)
  have h2: "data \<lparr>data = Some profile7, error = None\<rparr> = Some profile7"
    by simp
  have s: "subscriptions_select (known_user_backend sample_table) = table_subscriptions sample_table"
    by (rule known_user_backend_simps)
  have a: "user_email alice = Some ''alice@example.com''"
    by (simp add: alice_def)
  note T = exact_match_short_circuits [OF h1 h2, of initial_state]
  from T have c: "profileLookupStages (diagnostics (hook (effect (known_user_backend sample_table)
           (Some alice) initial_state))) = [stage1_label]"
        "calls_of (trace (effect (known_user_backend sample_table) (Some alice) initial_state)) =
           [SelectProfileExact (user_email alice), SelectSubscriptions (tier_query alice)]"
    by blast+
  from T s have "if \<exists>r \<in> set sample_table. login_id r = user_id alice
       then \<exists>r \<in> set sample_table. login_id r = user_id alice \<and>
          (\<forall>r' \<in> set sample_table. login_id r' = user_id alice \<longrightarrow> created_at r' \<le> created_at r) \<and>
          tier (hook (effect (known_user_backend sample_table) (Some alice) initial_state))
            = or_free (sub_tier r)
       else tier (hook (effect (known_user_backend sample_table) (Some alice) initial_state))
            = ''free''"
    by blast
  then have "tier (hook (effect (known_user_backend sample_table) (Some alice) initial_state))
                 = ''pro''"
    by (auto simp: sample_table_def alice_def or_free_def split: if_splits)
  with c h1 s show ?thesis by (simp add: a alice_query)
qed

text \<open>
  Claim C3 as first stated fails in its last part. With the profile found by stage 1 and
  a subscription query that returns an error, only stage 1 is recorded but no tier is set:
  after Bob's run the tier is still Bob's \<^verbatim>\<open>team\<close>, although Alice's newest row says
  \<^verbatim>\<open>pro\<close>. With the profile found by stage 1 and a newest row whose tier is the empty
  string, the tier set is \<^verbatim>\<open>free\<close>, which is not taken from that row.
\<close>

theorem exact_match_tier_counterexample:
  "profiles_eq_single broken_subscriptions_backend (user_email alice) =
     Fulfilled \<lparr>data = Some profile7, error = None\<rparr> \<and>
   profileLookupStages (diagnostics (hook (effect broken_subscriptions_backend (Some alice)
     (useSubscriptionTier [(known_user_backend sample_table, Some bob)])))) = [stage1_label] \<and>
   tiers_set (trace (effect broken_subscriptions_backend (Some alice)
     (useSubscriptionTier [(known_user_backend sample_table, Some bob)]))) = [] \<and>
   latest_rows sample_table (user_id alice) =
     [\<lparr>login_id = ''u-1'', sub_tier = Some ''pro'', created_at = 200\<rparr>] \<and>
   tier (useSubscriptionTier
          [(known_user_backend sample_table, Some bob), (broken_subscriptions_backend, Some alice)])
     = ''team'' \<and>
   profiles_eq_single (known_user_backend blank_tier_table) (user_email alice) =
     Fulfilled \<lparr>data = Some profile7, error = None\<rparr> \<and>
   subscriptions_select (known_user_backend blank_tier_table) = table_subscriptions blank_tier_table \<and>
   latest_rows blank_tier_table (user_id alice) =
     [\<lparr>login_id = ''u-1'', sub_tier = Some [], created_at = 200\<rparr>] \<and>
   tier (useSubscriptionTier [(known_user_backend blank_tier_table, Some alice)]) = ''free''"
  by (simp add: known_user_backend_simps broken_backend_simps known_user_run broken_run
      sample_latest blank_query sample_query useSubscriptionTier_def activeTier_def or_free_def)

section \<open>Proofs: the absent identity\<close>

lemma effect_None: "hook (effect b None h) = h\<lparr>loading := False\<rparr>"
  by (simp add: effect_def start_def setLoading_def emit_def)

text \<open>
  Claim C5, as amended. With no user the effect sends no request, its only effect is
  \<^verbatim>\<open>setLoading(false)\<close>, and the tier and the diagnostics keep the values they had: the
  tier is \<^verbatim>\<open>free\<close> when no earlier run set another (as on the first render).
\<close>

theorem absent_identity_is_idle:
  "trace (effect b None h) = [SetLoading False] \<and>
   calls_of (trace (effect b None h)) = [] \<and>
   hook (effect b None h) = h\<lparr>loading := False\<rparr> \<and>
   tier (hook (effect b None initial_state)) = ''free''"
  by (simp add: effect_def start_def setLoading_def emit_def initial_state_def)

theorem absent_identity_is_idle_witness:
  "calls_of (trace (effect refusing_backend None initial_state)) = [] \<and>
   hook (effect refusing_backend None initial_state) =
     \<lparr>tier = ''free'', loading = False, diagnostics = empty_diagnostics\<rparr>"
  using absent_identity_is_idle [of refusing_backend initial_state]
  by (simp add: initial_state_def)

text \<open>
  Claim C5 as first stated fails when the identity becomes absent after a successful
  run: the tier stays \<^verbatim>\<open>pro\<close> and the diagnostics still hold the earlier result.
\<close>

theorem sign_out_keeps_tier_counterexample:
  "tier (useSubscriptionTier
          [(known_user_backend sample_table, Some alice), (known_user_backend sample_table, None)])
     = ''pro'' \<and>
   tier (useSubscriptionTier
          [(known_user_backend sample_table, Some alice), (known_user_backend sample_table, None)])
     \<noteq> ''free'' \<and>
   finalTier (diagnostics (useSubscriptionTier
          [(known_user_backend sample_table, Some alice), (known_user_backend sample_table, None)]))
     = Some ''pro''"
  by (simp add: useSubscriptionTier_def known_user_run sample_query activeTier_def or_free_def
      effect_None)

section \<open>Proofs: the failed subscription query\<close>

text \<open>
  Claim C6. When a run reaches the subscription query and the query answers with an
  error, the payload (message, details, hint, code) is published as
  \<^verbatim>\<open>subscriptionError\<close> together with the \<^verbatim>\<open>profileError\<close> text of the outer catch, no
  \<^verbatim>\<open>finalTier\<close> is recorded, \<^verbatim>\<open>setTier\<close> is never called and the tier keeps the value it
  had before the run; the query is the last request.
\<close>

theorem subscription_error_aborts:
  assumes "subscriptions_select b (tier_query u) = Fulfilled r" and "error r = Some pe"
    and "SelectSubscriptions (tier_query u) \<in> set (calls_of (trace (effect b (Some u) h)))"
  shows "subscriptionError (diagnostics (hook (effect b (Some u) h))) =
           Some \<lparr>message = message pe, details = details pe, hint = hint pe, code = code pe\<rparr> \<and>
         profileError (diagnostics (hook (effect b (Some u) h))) = Some (catch_message b (PgError pe)) \<and>
         finalTier (diagnostics (hook (effect b (Some u) h))) = None \<and>
         tiers_set (trace (effect b (Some u) h)) = [] \<and>
         tier (hook (effect b (Some u) h)) = tier h \<and>
         last (calls_of (trace (effect b (Some u) h))) = SelectSubscriptions (tier_query u)"
proof (cases "resolve_profile b u (entry (start h))")
  case (Throw t e')
  then show ?thesis using assms(3) effect_after_throw(3) by blast
next
  case (Normal e')
  note p = effect_after_profile [OF Normal]
  show ?thesis
    using assms(1,2) p(2-7)
    by (simp add: p(1) lookup_subscription_def catch_all_def setter_defs Let_def)
qed

theorem subscription_error_aborts_witness:
  "subscriptions_select broken_subscriptions_backend (tier_query alice) =
     Fulfilled \<lparr>data = None, error = Some timeout_error\<rparr> \<and>
   SelectSubscriptions (tier_query alice) \<in>
     set (calls_of (trace (effect broken_subscriptions_backend (Some alice) initial_state))) \<and>
   subscriptionError (diagnostics (hook (effect broken_subscriptions_backend (Some alice)
     initial_state))) = Some timeout_error \<and>
   tiers_set (trace (effect broken_subscriptions_backend (Some alice) initial_state)) = [] \<and>
   tier (hook (effect broken_subscriptions_backend (Some alice) initial_state)) = ''free''"
proof -
  have h1: "subscriptions_select broken_subscriptions_backend (tier_query alice) =
     Fulfilled \<lparr>data = None, error = Some timeout_error\<rparr>"
    by (simp add: broken_subscriptions_backend_def scripted_def fails_with_def)
  have h2: "error \<lparr>data = None :: TierRow list option, error = Some timeout_error\<rparr> = Some timeout_error"
    by simp
  have x: "profiles_eq_single broken_subscriptions_backend (user_email alice) =
     Fulfilled \<lparr>data = Some profile7, error = None\<rparr>"
    by (simp add: broken_subscriptions_backend_def scripted_def answers_def)
  have h3: "SelectSubscriptions (tier_query alice) \<in>
     set (calls_of (trace (effect broken_subscriptions_backend (Some alice) initial_state)))"
    using h1
    by (simp add: effect_Some exact_hit [OF x] andThen_def lookup_subscription_def
        catch_all_def setter_defs Let_def)
  from subscription_error_aborts [OF h1 h2 h3] h1 h3 show ?thesis
    by (simp add: initial_state_def)
qed

section \<open>Proofs: the case-insensitive match\<close>

lemma after_ci:
  assumes "exact_misses b u" and "profiles_ilike b (user_email u) = Fulfilled r2"
  shows "andThen (lookup_exact b u (entry (start h))) (lookup_ci b u) =
     Normal \<lparr>exactMatchProfile =
               (case data r2 of
                  Some rows \<Rightarrow> if length rows = 1 then Some (hd rows) else None
                | None \<Rightarrow> None),
             diagnosticData = empty_diagnostics\<lparr>profileLookupStages := [stage1_label, stage2_label]\<rparr>,
             hook = h\<lparr>loading := True\<rparr>,
             trace = [SetLoading True, DiagnosticDataIs empty_diagnostics,
                DiagnosticDataIs (empty_diagnostics\<lparr>profileLookupStages := [stage1_label]\<rparr>),
                BackendCall (SelectProfileExact (user_email u)),
                DiagnosticDataIs (empty_diagnostics\<lparr>profileLookupStages := [stage1_label, stage2_label]\<rparr>),
                BackendCall (SelectProfileIlike (user_email u))]\<rparr>"
  using assms
  by (auto simp: exact_misses_def lookup_exact_def lookup_ci_def andThen_def Let_def entry_def
      start_def setter_defs empty_diagnostics_def split: awaited.splits option.splits)

lemma ci_accepted_run:
  assumes "exact_misses b u" and "profiles_ilike b (user_email u) = Fulfilled r2"
    and "data r2 = Some rows" and "length rows = 1"
  shows "calls_of (trace (effect b (Some u) h)) =
           [SelectProfileExact (user_email u), SelectProfileIlike (user_email u),
            SelectSubscriptions (tier_query u)] \<and>
         profileLookupStages (diagnostics (hook (effect b (Some u) h))) =
           [stage1_label, stage2_label]"
proof -
  have "resolve_profile b u (entry (start h)) =
     Normal \<lparr>exactMatchProfile = Some (hd rows),
             diagnosticData = empty_diagnostics\<lparr>profileLookupStages := [stage1_label, stage2_label]\<rparr>,
             hook = h\<lparr>loading := True\<rparr>,
             trace = [SetLoading True, DiagnosticDataIs empty_diagnostics,
                DiagnosticDataIs (empty_diagnostics\<lparr>profileLookupStages := [stage1_label]\<rparr>),
                BackendCall (SelectProfileExact (user_email u)),
                DiagnosticDataIs (empty_diagnostics\<lparr>profileLookupStages := [stage1_label, stage2_label]\<rparr>),
                BackendCall (SelectProfileIlike (user_email u))]\<rparr>"
    unfolding resolve_profile_def after_ci [OF assms(1,2)]
    using assms(3,4) by (simp add: andThen_def lookup_rpc_def create_profile_def)
  then show ?thesis
    by (simp add: effect_Some andThen_def lookup_subscription_def catch_all_def setter_defs
        Let_def empty_diagnostics_def split: awaited.splits option.splits)
qed

lemma ci_refused_run:
  assumes "exact_misses b u" and "profiles_ilike b (user_email u) = Fulfilled r2"
    and "case data r2 of Some rows \<Rightarrow> length rows \<noteq> 1 | None \<Rightarrow> True"
  shows "take 3 (calls_of (trace (effect b (Some u) h))) =
           [SelectProfileExact (user_email u), SelectProfileIlike (user_email u),
            RpcGetAuthUserByEmail (encodeURIComponent (user_email u))] \<and>
         take 3 (profileLookupStages (diagnostics (hook (effect b (Some u) h)))) =
           [stage1_label, stage2_label, stage3_label] \<and>
         DiagnosticDataIs \<lparr>profileLookupStages = [stage1_label, stage2_label, stage3_label],
             finalTier = None, subscriptionError = None, profileError = None\<rparr>
           \<in> set (trace (effect b (Some u) h))"
proof -
  have n: "(case data r2 of
              Some rows \<Rightarrow> if length rows = 1 then Some (hd rows) else None
            | None \<Rightarrow> None) = None"
    using assms(3) by (cases "data r2") simp_all
  have "resolve_profile b u (entry (start h)) =
     andThen (lookup_rpc b u
       \<lparr>exactMatchProfile = None,
             diagnosticData = empty_diagnostics\<lparr>profileLookupStages := [stage1_label, stage2_label]\<rparr>,
             hook = h\<lparr>loading := True\<rparr>,
             trace = [SetLoading True, DiagnosticDataIs empty_diagnostics,
                DiagnosticDataIs (empty_diagnostics\<lparr>profileLookupStages := [stage1_label]\<rparr>),
                BackendCall (SelectProfileExact (user_email u)),
                DiagnosticDataIs (empty_diagnostics\<lparr>profileLookupStages := [stage1_label, stage2_label]\<rparr>),
                BackendCall (SelectProfileIlike (user_email u))]\<rparr>) (create_profile b u)"
    unfolding resolve_profile_def after_ci [OF assms(1,2)] n
    by (simp add: andThen_def)
  then show ?thesis
    by (simp add: effect_Some andThen_def lookup_rpc_def create_profile_def insert_profile_def
        lookup_subscription_def catch_all_def setter_defs
        Let_def empty_diagnostics_def split: awaited.splits option.splits)
qed

text \<open>
  Claim C4. When the exact match finds no profile and the case-insensitive query answers:
  an answer of exactly one row is accepted (the next request is the subscription query
  and the stage list stops at stage 2); any other answer (two or more rows, no row,
  \<^verbatim>\<open>null\<close>) is treated as no match: the third request is the remote procedure on the
  encoded email, the stage list continues with the stage 3 label, and the
  \<^verbatim>\<open>diagnosticData\<close> written when stage 3 starts holds no error.
\<close>

theorem ci_match_needs_exactly_one_row:
  assumes "exact_misses b u" and "profiles_ilike b (user_email u) = Fulfilled r2"
  shows "(\<forall>rows. data r2 = Some rows \<and> length rows = 1 \<longrightarrow>
            calls_of (trace (effect b (Some u) h)) =
              [SelectProfileExact (user_email u), SelectProfileIlike (user_email u),
               SelectSubscriptions (tier_query u)] \<and>
            profileLookupStages (diagnostics (hook (effect b (Some u) h))) =
              [stage1_label, stage2_label]) \<and>
         ((data r2 = None \<or> (\<exists>rows. data r2 = Some rows \<and> length rows \<noteq> 1)) \<longrightarrow>
            take 3 (calls_of (trace (effect b (Some u) h))) =
              [SelectProfileExact (user_email u), SelectProfileIlike (user_email u),
               RpcGetAuthUserByEmail (encodeURIComponent (user_email u))] \<and>
            take 3 (profileLookupStages (diagnostics (hook (effect b (Some u) h)))) =
              [stage1_label, stage2_label, stage3_label] \<and>
            DiagnosticDataIs \<lparr>profileLookupStages = [stage1_label, stage2_label, stage3_label],
                finalTier = None, subscriptionError = None, profileError = None\<rparr>
              \<in> set (trace (effect b (Some u) h)))"
proof (intro conjI allI impI)
  fix rows assume "data r2 = Some rows \<and> length rows = 1"
  then have d: "data r2 = Some rows" and l: "length rows = 1" by simp_all
  note a = ci_accepted_run [OF assms d l, of h]
  from a show "calls_of (trace (effect b (Some u) h)) =
      [SelectProfileExact (user_email u), SelectProfileIlike (user_email u),
       SelectSubscriptions (tier_query u)]" by simp
  from a show "profileLookupStages (diagnostics (hook (effect b (Some u) h))) =
      [stage1_label, stage2_label]" by simp
next
  assume "data r2 = None \<or> (\<exists>rows. data r2 = Some rows \<and> length rows \<noteq> 1)"
  then have c: "case data r2 of Some rows \<Rightarrow> length rows \<noteq> 1 | None \<Rightarrow> True"
    by (auto split: option.splits)
  note r = ci_refused_run [OF assms c, of h]
  from r show "take 3 (calls_of (trace (effect b (Some u) h))) =
      [SelectProfileExact (user_email u), SelectProfileIlike (user_email u),
       RpcGetAuthUserByEmail (encodeURIComponent (user_email u))]" by simp
  from r show "take 3 (profileLookupStages (diagnostics (hook (effect b (Some u) h)))) =
      [stage1_label, stage2_label, stage3_label]" by simp
  from r show "DiagnosticDataIs \<lparr>profileLookupStages = [stage1_label, stage2_label, stage3_label],
      finalTier = None, subscriptionError = None, profileError = None\<rparr>
      \<in> set (trace (effect b (Some u) h))" by simp
qed


theorem ci_match_needs_exactly_one_row_witness:
  "exact_misses ambiguous_backend alice \<and>
   profiles_ilike ambiguous_backend (user_email alice) =
     Fulfilled \<lparr>data = Some [profile7, profile8], error = None\<rparr> \<and>
   take 3 (calls_of (trace (effect ambiguous_backend (Some alice) initial_state))) =
     [SelectProfileExact (Some ''alice@example.com''), SelectProfileIlike (Some ''alice@example.com''),
      RpcGetAuthUserByEmail ''alice%40example.com''] \<and>
   exact_misses single_ci_backend alice \<and>
   profiles_ilike single_ci_backend (user_email alice) =
     Fulfilled \<lparr>data = Some [profile8], error = None\<rparr> \<and>
   calls_of (trace (effect single_ci_backend (Some alice) initial_state)) =
     [SelectProfileExact (Some ''alice@example.com''), SelectProfileIlike (Some ''alice@example.com''),
      SelectSubscriptions (tier_query alice)]"
proof -
  have a1: "exact_misses ambiguous_backend alice"
    by (simp add: exact_misses_def ambiguous_backend_def scripted_def answers_def)
  have a2: "profiles_ilike ambiguous_backend (user_email alice) =
     Fulfilled \<lparr>data = Some [profile7, profile8], error = None\<rparr>"
    by (simp add: ambiguous_backend_def scripted_def answers_def)
  have s1: "exact_misses single_ci_backend alice"
    by (simp add: exact_misses_def single_ci_backend_def scripted_def answers_def)
  have s2: "profiles_ilike single_ci_backend (user_email alice) =
     Fulfilled \<lparr>data = Some [profile8], error = None\<rparr>"
    by (simp add: single_ci_backend_def scripted_def answers_def)
  have u: "user_email alice = Some ''alice@example.com''" "user_id alice = ''u-1''"
    by (simp_all add: alice_def)
  have "take 3 (calls_of (trace (effect ambiguous_backend (Some alice) initial_state))) =
     [SelectProfileExact (Some ''alice@example.com''), SelectProfileIlike (Some ''alice@example.com''),
      RpcGetAuthUserByEmail ''alice%40example.com'']"
    using ci_match_needs_exactly_one_row [OF a1 a2, of initial_state]
    by (simp add: u encoded_alice)
  moreover have "calls_of (trace (effect single_ci_backend (Some alice) initial_state)) =
     [SelectProfileExact (Some ''alice@example.com''), SelectProfileIlike (Some ''alice@example.com''),
      SelectSubscriptions (tier_query alice)]"
    using ci_match_needs_exactly_one_row [OF s1 s2, of initial_state]
    by (simp add: u)
  ultimately show ?thesis using a1 a2 s1 s2 by blast
qed

section \<open>Proofs: the values of the tier\<close>

lemma activeTier_mem:
  "activeTier d \<in>
     insert ''free'' (case d of Some rows \<Rightarrow> Option.these (set (map row_tier rows)) | None \<Rightarrow> {})"
  by (auto simp: activeTier_def or_free_def in_these_eq split: option.splits list.splits)

lemma effect_tier:
  "tier (hook (effect b (Some u) h)) \<in> insert (tier h) (insert ''free'' (returned_tiers b u))"
  "set (tiers_set (trace (effect b (Some u) h))) \<subseteq> insert ''free'' (returned_tiers b u)"
proof -
  have "tier (hook (effect b (Some u) h)) \<in> insert (tier h) (insert ''free'' (returned_tiers b u)) \<and>
        set (tiers_set (trace (effect b (Some u) h))) \<subseteq> insert ''free'' (returned_tiers b u)"
  proof (cases "resolve_profile b u (entry (start h))")
    case (Throw t e')
    then show ?thesis by (simp add: effect_after_throw)
  next
    case (Normal e')
    note p = effect_after_profile [OF Normal]
    show ?thesis
    proof (cases "subscriptions_select b (tier_query u)")
      case (Rejected t)
      then show ?thesis
        using p(2,3) by (simp add: p(1) lookup_subscription_def catch_all_def setter_defs Let_def)
    next
      case (Fulfilled r)
      show ?thesis
      proof (cases "error r")
        case (Some pe)
        then show ?thesis
          using p(2,3) Fulfilled
          by (simp add: p(1) lookup_subscription_def catch_all_def setter_defs Let_def)
      next
        case None
        have "activeTier (data r) \<in> insert ''free'' (returned_tiers b u)"
          using activeTier_mem [of "data r"] by (simp add: returned_tiers_def Fulfilled)
        then show ?thesis
          using p(2,3) Fulfilled None
          by (simp add: p(1) lookup_subscription_def catch_all_def setter_defs Let_def)
      qed
    qed
  qed
  then show "tier (hook (effect b (Some u) h)) \<in> insert (tier h) (insert ''free'' (returned_tiers b u))"
    and "set (tiers_set (trace (effect b (Some u) h))) \<subseteq> insert ''free'' (returned_tiers b u)"
    by simp_all
qed

lemma run_effects_tier:
  "tier h \<in> insert ''free'' S \<Longrightarrow> tier (run_effects renders h) \<in> insert ''free'' (S \<union> tiers_offered renders)"
proof (induction renders arbitrary: h S)
  case Nil
  then show ?case by simp
next
  case (Cons render rest)
  obtain b user where render: "render = (b, user)" by (cases render)
  show ?case
  proof (cases user)
    case None
    have "tier (hook (effect b None h)) = tier h" by (simp add: effect_None)
    with Cons.prems have "tier (hook (effect b None h)) \<in> insert ''free'' S" by simp
    from Cons.IH [OF this] show ?thesis by (simp add: render None)
  next
    case (Some u)
    have "tier (hook (effect b (Some u) h)) \<in> insert ''free'' (S \<union> returned_tiers b u)"
      using effect_tier(1) [of b u h] Cons.prems by auto
    from Cons.IH [OF this] show ?thesis
      by (simp add: render Some Un_assoc)
  qed
qed

text \<open>
  Claim C7. Over any sequence of runs of the effect from the initial state, the tier is
  \<^verbatim>\<open>free\<close> or one of the tier values in the rows the subscription queries returned; and
  every call of \<^verbatim>\<open>setTier\<close> in a run passes \<^verbatim>\<open>free\<close> or a tier value of the rows returned
  to that run (a run without a user never calls it).
\<close>

theorem tier_is_free_or_returned:
  "tier (useSubscriptionTier renders) \<in> insert ''free'' (tiers_offered renders) \<and>
   set (tiers_set (trace (effect b (Some u) h))) \<subseteq> insert ''free'' (returned_tiers b u) \<and>
   tiers_set (trace (effect b None h)) = []"
proof -
  have "tier initial_state \<in> insert ''free'' {}" by (simp add: initial_state_def)
  from run_effects_tier [OF this, of renders]
  have "tier (useSubscriptionTier renders) \<in> insert ''free'' (tiers_offered renders)"
    by (simp add: useSubscriptionTier_def)
  moreover have "tiers_set (trace (effect b None h)) = []"
    by (simp add: effect_def start_def setLoading_def emit_def)
  ultimately show ?thesis using effect_tier(2) [of b u h] by simp
qed

theorem tier_is_free_or_returned_witness:
  "tier (useSubscriptionTier
          [(known_user_backend sample_table, Some alice), (refusing_backend, Some bob),
           (refusing_backend, None)]) \<in> {''free'', ''pro'', ''team''}"
proof -
  have r1: "returned_tiers (known_user_backend sample_table) alice = {''pro''}"
    by (simp add: returned_tiers_def known_user_backend_simps table_subscriptions_def sample_query)
  have r2: "returned_tiers refusing_backend bob = {''team''}"
    by (simp add: returned_tiers_def refusing_backend_def scripted_def answers_def)
  have "tiers_offered [(known_user_backend sample_table, Some alice), (refusing_backend, Some bob),
           (refusing_backend, None)] = {''pro'', ''team''}"
    by (auto simp: r1 r2)
  then show ?thesis
    using tier_is_free_or_returned [of "[(known_user_backend sample_table, Some alice),
      (refusing_backend, Some bob), (refusing_backend, None)]" refusing_backend bob initial_state]
    by simp
qed

section \<open>Proofs: the diagnostic trace\<close>

text \<open>
  Claim C9. Within one run, the successive values of
  \<^verbatim>\<open>diagnosticData.profileLookupStages\<close> only grow: each is an initial part of the next.
  The run publishes its diagnostics exactly once, on the success path and on the failure
  path alike, and every stage list recorded during the run is an initial part of the
  published one.
\<close>

theorem diagnostic_trace_only_grows:
  "only_grows (map profileLookupStages (diagnosticData_history (trace (effect b (Some u) h)))) \<and>
   published (trace (effect b (Some u) h)) = [diagnostics (hook (effect b (Some u) h))] \<and>
   all_prefixes_of (profileLookupStages (diagnostics (hook (effect b (Some u) h))))
     (map profileLookupStages (diagnosticData_history (trace (effect b (Some u) h))))"
  by (simp add: effect_def resolveSubscriptionTier_def try_body_def entry_def start_def
      catch_all_def lookup_subscription_def lookup_defs setter_defs empty_diagnostics_def
      split: awaited.splits option.splits)

theorem diagnostic_trace_only_grows_witness:
  "map profileLookupStages
     (diagnosticData_history (trace (effect refusing_backend (Some alice) initial_state))) =
     [[], [stage1_label], [stage1_label, stage2_label], [stage1_label, stage2_label, stage3_label],
      [stage1_label, stage2_label, stage3_label, stage4_label],
      [stage1_label, stage2_label, stage3_label, stage4_label, fatal_label]] \<and>
   only_grows (map profileLookupStages
     (diagnosticData_history (trace (effect refusing_backend (Some alice) initial_state)))) \<and>
   profileLookupStages (diagnostics (hook (effect refusing_backend (Some alice) initial_state))) =
     [stage1_label, stage2_label, stage3_label, stage4_label, fatal_label]"
proof -
  have h: "exact_misses refusing_backend alice" "ci_misses refusing_backend alice"
    "rpc_misses refusing_backend alice"
    by (simp_all add: exact_misses_def ci_misses_def rpc_misses_def sample_defs)
  have i: "profiles_insert_single refusing_backend (user_email alice) (user_id alice) =
             Fulfilled \<lparr>data = None, error = Some rls_denied\<rparr>"
    by (simp add: refusing_backend_def scripted_def fails_with_def)
  have "map profileLookupStages
     (diagnosticData_history (trace (effect refusing_backend (Some alice) initial_state))) =
     [[], [stage1_label], [stage1_label, stage2_label], [stage1_label, stage2_label, stage3_label],
      [stage1_label, stage2_label, stage3_label, stage4_label],
      [stage1_label, stage2_label, stage3_label, stage4_label, fatal_label]]"
    and "profileLookupStages (diagnostics (hook (effect refusing_backend (Some alice) initial_state))) =
     [stage1_label, stage2_label, stage3_label, stage4_label, fatal_label]"
    using i
    by (simp_all add: effect_Some three_misses [OF h] andThen_def create_profile_def
        insert_profile_def catch_all_def setter_defs Let_def empty_diagnostics_def)
  then show ?thesis
    using diagnostic_trace_only_grows [of refusing_backend alice initial_state] by simp
qed

section \<open>Proofs: the errors of the lookup stages\<close>

lemma lookup_exact_ignores_error:
  "lookup_exact (without_lookup_errors b) u = lookup_exact b u"
  by (rule ext) (simp add: lookup_exact_def without_lookup_errors_def drop_error_def
      split: awaited.splits)

lemma lookup_ci_ignores_error:
  "lookup_ci (without_lookup_errors b) u = lookup_ci b u"
  by (rule ext) (simp add: lookup_ci_def without_lookup_errors_def drop_error_def
      split: awaited.splits)

lemma lookup_rpc_ignores_error:
  "lookup_rpc (without_lookup_errors b) u = lookup_rpc b u"
  by (rule ext) (simp add: lookup_rpc_def without_lookup_errors_def drop_error_def Let_def
      split: awaited.splits)

lemma later_steps_unchanged:
  "create_profile (without_lookup_errors b) u = create_profile b u"
  "lookup_subscription (without_lookup_errors b) u = lookup_subscription b u"
  "catch_all (without_lookup_errors b) = catch_all b"
proof -
  show "create_profile (without_lookup_errors b) u = create_profile b u"
    by (rule ext) (simp add: create_profile_def insert_profile_def without_lookup_errors_def)
  show "lookup_subscription (without_lookup_errors b) u = lookup_subscription b u"
    by (rule ext) (simp add: lookup_subscription_def without_lookup_errors_def)
  have "catch_message (without_lookup_errors b) t = catch_message b t" for t
    by (cases t) (simp_all add: catch_message_def without_lookup_errors_def)
  then show "catch_all (without_lookup_errors b) = catch_all b"
    by (intro ext) (simp add: catch_all_def split: completion.splits)
qed

lemma five_answers:
  assumes "profiles_eq_single b (user_email u) = Fulfilled r1"
    and "profiles_ilike b (user_email u) = Fulfilled r2"
    and "rpc_get_auth_user_by_email b (encodeURIComponent (user_email u)) = Fulfilled r3"
    and "profiles_insert_single b (user_email u) (user_id u) = Fulfilled r4" and "error r4 = None"
    and "subscriptions_select b (tier_query u) = Fulfilled r5" and "error r5 = None"
  shows "profileError (diagnostics (hook (effect b (Some u) h))) = None \<and>
         subscriptionError (diagnostics (hook (effect b (Some u) h))) = None"
proof -
  obtain e' where n: "resolve_profile b u (entry (start h)) = Normal e'"
    using assms(1-5)
    by (cases "resolve_profile b u (entry (start h))")
       (simp_all add: lookup_defs split: option.splits if_splits)
  note p = effect_after_profile [OF n]
  show ?thesis
    using assms(6,7) p(6,7)
    by (simp add: p(1) lookup_subscription_def catch_all_def setter_defs Let_def)
qed

lemma failed_ci_as_no_row:
  assumes "profiles_ilike b (user_email u) = fails_with pe"
  shows "effect (b\<lparr>profiles_ilike := (\<lambda>email. answers (Some []))\<rparr>) (Some u) h =
         effect b (Some u) h"
proof -
  let ?b = "b\<lparr>profiles_ilike := (\<lambda>email. answers (Some []))\<rparr>"
  have ci: "lookup_ci ?b u = lookup_ci b u"
    using assms by (intro ext) (simp add: lookup_ci_def fails_with_def answers_def Let_def)
  have others: "lookup_exact ?b u = lookup_exact b u" "lookup_rpc ?b u = lookup_rpc b u"
    "create_profile ?b u = create_profile b u"
    "lookup_subscription ?b u = lookup_subscription b u"
    by (intro ext, simp add: lookup_exact_def lookup_rpc_def create_profile_def
        insert_profile_def lookup_subscription_def)+
  have "catch_message ?b t = catch_message b t" for t
    by (cases t) (simp_all add: catch_message_def)
  then have "catch_all ?b = catch_all b"
    by (intro ext) (simp add: catch_all_def split: completion.splits)
  then show ?thesis
    by (simp add: effect_def resolveSubscriptionTier_def try_body_def resolve_profile_def
        ci others)
qed

lemma shorter_take:
  "take 3 xs = [a, b, c] \<Longrightarrow> take 2 xs = [a, b]"
proof -
  assume t: "take 3 xs = [a, b, c]"
  have "take 2 xs = take 2 (take 3 xs)" by simp
  then show ?thesis by (simp add: t)
qed

lemma falls_to_ci:
  assumes "exact_misses b u"
  shows "take 2 (calls_of (trace (effect b (Some u) h))) =
           [SelectProfileExact (user_email u), SelectProfileIlike (user_email u)] \<and>
         take 2 (profileLookupStages (diagnostics (hook (effect b (Some u) h)))) =
           [stage1_label, stage2_label]"
proof (cases "profiles_ilike b (user_email u)")
  case (Rejected t)
  obtain r1 where r1: "profiles_eq_single b (user_email u) = Fulfilled r1" "data r1 = None"
    using assms by (auto simp: exact_misses_def split: awaited.splits)
  show ?thesis
    using r1 Rejected
    by (simp add: effect_Some lookup_defs catch_all_def entry_def start_def setter_defs
        empty_diagnostics_def)
next
  case (Fulfilled r2)
  show ?thesis
  proof (cases "\<exists>rows. data r2 = Some rows \<and> length rows = 1")
    case True
    then obtain rows where "data r2 = Some rows" "length rows = 1" by blast
    from ci_accepted_run [OF assms Fulfilled this, of h] show ?thesis by simp
  next
    case False
    then have "case data r2 of Some rows \<Rightarrow> length rows \<noteq> 1 | None \<Rightarrow> True"
      by (cases "data r2") simp_all
    from ci_refused_run [OF assms Fulfilled this, of h] show ?thesis
      by (simp add: shorter_take)
  qed
qed

lemma falls_to_rpc:
  assumes "exact_misses b u" and "ci_misses b u"
  shows "take 3 (calls_of (trace (effect b (Some u) h))) =
           [SelectProfileExact (user_email u), SelectProfileIlike (user_email u),
            RpcGetAuthUserByEmail (encodeURIComponent (user_email u))] \<and>
         take 3 (profileLookupStages (diagnostics (hook (effect b (Some u) h)))) =
           [stage1_label, stage2_label, stage3_label]"
proof -
  obtain r2 where r2: "profiles_ilike b (user_email u) = Fulfilled r2"
    "case data r2 of Some rows \<Rightarrow> length rows \<noteq> 1 | None \<Rightarrow> True"
    using assms(2) by (auto simp: ci_misses_def split: awaited.splits)
  from ci_refused_run [OF assms(1) r2, of h] show ?thesis by simp
qed

lemma falls_to_insert:
  assumes "exact_misses b u" and "ci_misses b u" and "rpc_misses b u"
  shows "take 4 (calls_of (trace (effect b (Some u) h))) =
           [SelectProfileExact (user_email u), SelectProfileIlike (user_email u),
            RpcGetAuthUserByEmail (encodeURIComponent (user_email u)),
            InsertProfile (user_email u) (user_id u)] \<and>
         take 4 (profileLookupStages (diagnostics (hook (effect b (Some u) h)))) =
           [stage1_label, stage2_label, stage3_label, stage4_label]"
  by (simp add: effect_Some three_misses [OF assms] andThen_def create_profile_def
      insert_profile_def lookup_subscription_def catch_all_def setter_defs Let_def
      empty_diagnostics_def split: awaited.splits option.splits)

lemma failing_answer_misses:
  "profiles_eq_single b (user_email u) = fails_with pe \<Longrightarrow> exact_misses b u"
  "profiles_ilike b (user_email u) = fails_with pe \<Longrightarrow> ci_misses b u"
  "rpc_get_auth_user_by_email b (encodeURIComponent (user_email u)) = fails_with pe \<Longrightarrow>
     rpc_misses b u"
  by (simp_all add: exact_misses_def ci_misses_def rpc_misses_def fails_with_def)

text \<open>
  Claim C10. The run never reads the error field of the answers of stages 1 to 3:
  clearing those fields changes nothing of the run (not its requests, its state or its
  diagnostics). A lookup that fails (an answer with an error and no data) falls through
  like one that finds no row: after a failed stage 1 the second request is the
  case-insensitive query, after a failed stage 2 the third is the remote procedure, after
  a failed stage 3 the fourth is the insert, each time with the next stage's label
  recorded; a case-insensitive query that fails gives the same run as one that returns
  the empty array. When all five calls answer and neither the insert nor the subscription
  query reports an error, the published diagnostics hold no error, whatever errors the
  three lookups returned.
\<close>

theorem lookup_errors_are_discarded:
  "effect (without_lookup_errors b) (Some u) h = effect b (Some u) h \<and>
   (\<forall>pe. profiles_eq_single b (user_email u) = fails_with pe \<longrightarrow>
      take 2 (calls_of (trace (effect b (Some u) h))) =
        [SelectProfileExact (user_email u), SelectProfileIlike (user_email u)] \<and>
      take 2 (profileLookupStages (diagnostics (hook (effect b (Some u) h)))) =
        [stage1_label, stage2_label]) \<and>
   (\<forall>pe. exact_misses b u \<and> profiles_ilike b (user_email u) = fails_with pe \<longrightarrow>
      take 3 (calls_of (trace (effect b (Some u) h))) =
        [SelectProfileExact (user_email u), SelectProfileIlike (user_email u),
         RpcGetAuthUserByEmail (encodeURIComponent (user_email u))] \<and>
      take 3 (profileLookupStages (diagnostics (hook (effect b (Some u) h)))) =
        [stage1_label, stage2_label, stage3_label]) \<and>
   (\<forall>pe. exact_misses b u \<and> ci_misses b u \<and>
         rpc_get_auth_user_by_email b (encodeURIComponent (user_email u)) = fails_with pe \<longrightarrow>
      take 4 (calls_of (trace (effect b (Some u) h))) =
        [SelectProfileExact (user_email u), SelectProfileIlike (user_email u),
         RpcGetAuthUserByEmail (encodeURIComponent (user_email u)),
         InsertProfile (user_email u) (user_id u)] \<and>
      take 4 (profileLookupStages (diagnostics (hook (effect b (Some u) h)))) =
        [stage1_label, stage2_label, stage3_label, stage4_label]) \<and>
   (\<forall>pe. profiles_ilike b (user_email u) = fails_with pe \<longrightarrow>
      effect (b\<lparr>profiles_ilike := (\<lambda>email. answers (Some []))\<rparr>) (Some u) h =
        effect b (Some u) h) \<and>
   (\<forall>r1 r2 r3 r4 r5.
      profiles_eq_single b (user_email u) = Fulfilled r1 \<and>
      profiles_ilike b (user_email u) = Fulfilled r2 \<and>
      rpc_get_auth_user_by_email b (encodeURIComponent (user_email u)) = Fulfilled r3 \<and>
      profiles_insert_single b (user_email u) (user_id u) = Fulfilled r4 \<and> error r4 = None \<and>
      subscriptions_select b (tier_query u) = Fulfilled r5 \<and> error r5 = None \<longrightarrow>
      profileError (diagnostics (hook (effect b (Some u) h))) = None \<and>
      subscriptionError (diagnostics (hook (effect b (Some u) h))) = None)"
proof -
  have "effect (without_lookup_errors b) (Some u) h = effect b (Some u) h"
    by (simp add: effect_def resolveSubscriptionTier_def try_body_def resolve_profile_def
        lookup_exact_ignores_error lookup_ci_ignores_error lookup_rpc_ignores_error
        later_steps_unchanged)
  moreover have "take 2 (calls_of (trace (effect b (Some u) h))) =
        [SelectProfileExact (user_email u), SelectProfileIlike (user_email u)] \<and>
      take 2 (profileLookupStages (diagnostics (hook (effect b (Some u) h)))) =
        [stage1_label, stage2_label]"
    if "profiles_eq_single b (user_email u) = fails_with pe" for pe
    using falls_to_ci [OF failing_answer_misses(1) [OF that], of h] .
  moreover have "take 3 (calls_of (trace (effect b (Some u) h))) =
        [SelectProfileExact (user_email u), SelectProfileIlike (user_email u),
         RpcGetAuthUserByEmail (encodeURIComponent (user_email u))] \<and>
      take 3 (profileLookupStages (diagnostics (hook (effect b (Some u) h)))) =
        [stage1_label, stage2_label, stage3_label]"
    if "exact_misses b u" "profiles_ilike b (user_email u) = fails_with pe" for pe
    using falls_to_rpc [OF that(1) failing_answer_misses(2) [OF that(2)], of h] .
  moreover have "take 4 (calls_of (trace (effect b (Some u) h))) =
        [SelectProfileExact (user_email u), SelectProfileIlike (user_email u),
         RpcGetAuthUserByEmail (encodeURIComponent (user_email u)),
         InsertProfile (user_email u) (user_id u)] \<and>
      take 4 (profileLookupStages (diagnostics (hook (effect b (Some u) h)))) =
        [stage1_label, stage2_label, stage3_label, stage4_label]"
    if "exact_misses b u" "ci_misses b u"
       "rpc_get_auth_user_by_email b (encodeURIComponent (user_email u)) = fails_with pe" for pe
    using falls_to_insert [OF that(1,2) failing_answer_misses(3) [OF that(3)], of h] .
  ultimately show ?thesis
    using five_answers [of b u _ _ _ _ _ h] failed_ci_as_no_row [of b u _ h] by blast
qed

theorem lookup_errors_are_discarded_witness:
  "profiles_eq_single failing_lookups_backend (user_email alice) = fails_with timeout_error \<and>
   profiles_ilike failing_lookups_backend (user_email alice) = fails_with timeout_error \<and>
   rpc_get_auth_user_by_email failing_lookups_backend (encodeURIComponent (user_email alice))
     = fails_with timeout_error \<and>
   take 4 (calls_of (trace (effect failing_lookups_backend (Some alice) initial_state))) =
     [SelectProfileExact (Some ''alice@example.com''), SelectProfileIlike (Some ''alice@example.com''),
      RpcGetAuthUserByEmail ''alice%40example.com'',
      InsertProfile (Some ''alice@example.com'') ''u-1''] \<and>
   take 4 (profileLookupStages (diagnostics (hook (effect failing_lookups_backend (Some alice)
     initial_state)))) = [stage1_label, stage2_label, stage3_label, stage4_label] \<and>
   effect (without_lookup_errors failing_lookups_backend) (Some alice) initial_state =
     effect failing_lookups_backend (Some alice) initial_state \<and>
   effect (failing_lookups_backend\<lparr>profiles_ilike := (\<lambda>email. answers (Some []))\<rparr>)
       (Some alice) initial_state =
     effect failing_lookups_backend (Some alice) initial_state \<and>
   profileError (diagnostics (hook (effect failing_lookups_backend (Some alice) initial_state)))
     = None \<and>
   subscriptionError (diagnostics (hook (effect failing_lookups_backend (Some alice) initial_state)))
     = None"
proof -
  have a: "profiles_eq_single failing_lookups_backend (user_email alice) = fails_with timeout_error"
    "profiles_ilike failing_lookups_backend (user_email alice) = fails_with timeout_error"
    "rpc_get_auth_user_by_email failing_lookups_backend (encodeURIComponent (user_email alice))
       = fails_with timeout_error"
    by (simp_all add: failing_lookups_backend_def scripted_def)
  have b: "profiles_insert_single failing_lookups_backend (user_email alice) (user_id alice) =
       Fulfilled \<lparr>data = Some profile8, error = None\<rparr>"
    "subscriptions_select failing_lookups_backend (tier_query alice) =
       Fulfilled \<lparr>data = Some [\<lparr>row_tier = Some ''pro''\<rparr>], error = None\<rparr>"
    by (simp_all add: failing_lookups_backend_def scripted_def answers_def)
  have m: "exact_misses failing_lookups_backend alice" "ci_misses failing_lookups_backend alice"
    using a by (simp_all add: failing_answer_misses)
  have u: "user_email alice = Some ''alice@example.com''" "user_id alice = ''u-1''"
    by (simp_all add: alice_def)
  note T = lookup_errors_are_discarded [of failing_lookups_backend alice initial_state]
  from T have e1: "effect (without_lookup_errors failing_lookups_backend) (Some alice) initial_state =
     effect failing_lookups_backend (Some alice) initial_state"
    by blast
  from T a(2) have e2: "effect (failing_lookups_backend\<lparr>profiles_ilike := (\<lambda>email. answers (Some []))\<rparr>)
       (Some alice) initial_state = effect failing_lookups_backend (Some alice) initial_state"
    by blast
  from T m a(3) have f: "take 4 (calls_of (trace (effect failing_lookups_backend (Some alice)
        initial_state))) =
        [SelectProfileExact (user_email alice), SelectProfileIlike (user_email alice),
         RpcGetAuthUserByEmail (encodeURIComponent (user_email alice)),
         InsertProfile (user_email alice) (user_id alice)] \<and>
      take 4 (profileLookupStages (diagnostics (hook (effect failing_lookups_backend (Some alice)
        initial_state)))) = [stage1_label, stage2_label, stage3_label, stage4_label]"
    by blast
  from T a b have n: "profileError (diagnostics (hook (effect failing_lookups_backend (Some alice)
        initial_state))) = None \<and>
      subscriptionError (diagnostics (hook (effect failing_lookups_backend (Some alice)
        initial_state))) = None"
    unfolding fails_with_def
    by (metis PostgrestResponse.select_convs(2))
  from a e1 e2 f n show ?thesis
    by (simp add: u encoded_alice)
qed

end
